theory Spec2Isabelle
  imports Complex_Main "HOL-Library.Multiset"
begin

section \<open>Python values\<close>

text \<open>
  The exceptions that the handlers of \<^verbatim>\<open>app.py\<close> can meet. \<open>NotFound\<close>, \<open>BadRequest\<close>
  and \<open>UnsupportedMediaType\<close> are HTTP exceptions of the web framework (404, 400 and
  415); like every HTTP exception they are subclasses of Python's \<^verbatim>\<open>Exception\<close>.
  \<open>NoAnswer\<close> is the \<^verbatim>\<open>Exception("Keine Antwort von Gemini API erhalten")\<close> of
  \<^verbatim>\<open>create_recommendation\<close>; \<open>RemoteError\<close> is whatever the external text service
  raises.
\<close>

datatype exn =
    TypeError | KeyError | ValueError | AttributeError | ZeroDivisionError | OverflowError
  | NotFound | BadRequest | UnsupportedMediaType
  | IntegrityError | InterfaceError | NoAnswer | RemoteError string

text \<open>
  A Python number is an \<^verbatim>\<open>int\<close>, of any size, or a \<^verbatim>\<open>float\<close>. The floats are the
  values of a type \<open>'f\<close> about which nothing is assumed: what Python's float
  arithmetic does with them is taken from the environment below.
\<close>

datatype 'f pynum = PInt int | PFloat 'f

definition bind_exn :: "exn + 'a \<Rightarrow> ('a \<Rightarrow> exn + 'b) \<Rightarrow> exn + 'b" where
  "bind_exn m f = (case m of Inl e \<Rightarrow> Inl e | Inr x \<Rightarrow> f x)"

fun map_exn :: "('a \<Rightarrow> exn + 'b) \<Rightarrow> 'a list \<Rightarrow> exn + 'b list" where
  "map_exn f [] = Inr []"
| "map_exn f (x # xs) =
     bind_exn (f x) (\<lambda>y. bind_exn (map_exn f xs) (\<lambda>ys. Inr (y # ys)))"

section \<open>Calendar dates\<close>

text \<open>
  \<^verbatim>\<open>datetime.date\<close>: year, month and day of the proleptic Gregorian calendar, ordered
  as the triple. \<open>toordinal\<close> counts days from 0001-01-01 (ordinal 1, a Monday), and
  \<^verbatim>\<open>weekday()\<close> is 0 on Monday.
\<close>

record date =
  year :: nat
  month :: nat
  day :: nat

definition is_leap :: "nat \<Rightarrow> bool" where
  "is_leap y = (y mod 4 = 0 \<and> (y mod 100 \<noteq> 0 \<or> y mod 400 = 0))"

definition days_in_month :: "nat \<Rightarrow> nat \<Rightarrow> nat" where
  "days_in_month y m =
     (if m = 2 then (if is_leap y then 29 else 28)
      else if m = 4 \<or> m = 6 \<or> m = 9 \<or> m = 11 then 30 else 31)"

definition valid_date :: "date \<Rightarrow> bool" where
  "valid_date d =
     (1 \<le> year d \<and> year d \<le> 9999 \<and> 1 \<le> month d \<and> month d \<le> 12 \<and>
      1 \<le> day d \<and> day d \<le> days_in_month (year d) (month d))"

definition date_le :: "date \<Rightarrow> date \<Rightarrow> bool" where
  "date_le a b =
     (year a < year b \<or>
      (year a = year b \<and> (month a < month b \<or> (month a = month b \<and> day a \<le> day b))))"

definition days_before_year :: "nat \<Rightarrow> nat" where
  "days_before_year y =
     (let z = y - 1 in z * 365 + z div 4 + z div 400 - z div 100)"

fun days_before_month :: "nat \<Rightarrow> nat \<Rightarrow> nat" where
  "days_before_month y 0 = 0"
| "days_before_month y (Suc m) =
     (if m = 0 then 0 else days_before_month y m + days_in_month y m)"

definition toordinal :: "date \<Rightarrow> nat" where
  "toordinal d = days_before_year (year d) + days_before_month (year d) (month d) + day d"

definition weekday :: "date \<Rightarrow> nat" where
  "weekday d = (toordinal d + 6) mod 7"

text \<open>The day before, and \<^verbatim>\<open>d - timedelta(days=n)\<close>, which raises below 0001-01-01.\<close>

definition prev_day :: "date \<Rightarrow> date" where
  "prev_day d =
     (if 1 < day d then d\<lparr>day := day d - 1\<rparr>
      else if 1 < month d
        then \<lparr>year = year d, month = month d - 1, day = days_in_month (year d) (month d - 1)\<rparr>
        else \<lparr>year = year d - 1, month = 12, day = 31\<rparr>)"

fun back_days :: "date \<Rightarrow> nat \<Rightarrow> date" where
  "back_days d 0 = d"
| "back_days d (Suc n) = back_days (prev_day d) n"

definition date_sub_days :: "date \<Rightarrow> nat \<Rightarrow> exn + date" where
  "date_sub_days d n = (if toordinal d \<le> n then Inl OverflowError else Inr (back_days d n))"

text \<open>\<^verbatim>\<open>d.replace(day=1)\<close>\<close>

definition replace_day1 :: "date \<Rightarrow> date" where
  "replace_day1 d = d\<lparr>day := 1\<rparr>"

section \<open>Request data\<close>

text \<open>
  A JSON value as the framework's parser hands it over: \<open>JNull\<close> is Python's \<^verbatim>\<open>None\<close>,
  an object is the list of its members, each key once. Text is held as the bytes of its
  UTF-8 encoding.
\<close>

datatype 'f json =
    JNull | JBool bool | JInt int | JFloat 'f | JStr string
  | JList "'f json list" | JObj "(string \<times> 'f json) list"

text \<open>
  The body of a request, as \<^verbatim>\<open>request.get_json()\<close> meets it: a request whose content
  type is not JSON (a request without a body), a request of JSON content type whose
  body is empty or is not JSON text, and a request whose body is the text of a
  JSON value. Since its version 2.1 the framework raises for the first two.
\<close>

datatype 'f request_body = NoJson | BadJson | Json "'f json"

definition get_json :: "'f request_body \<Rightarrow> exn + 'f json" where
  "get_json body =
     (case body of
        NoJson \<Rightarrow> Inl UnsupportedMediaType
      | BadJson \<Rightarrow> Inl BadRequest
      | Json v \<Rightarrow> Inr v)"

section \<open>The environment\<close>

text \<open>
  The configuration read at start-up and a request to the external text service.
\<close>

record 'f config =
  gemini_api_key :: string
  gemini_model :: string
  gemini_temperature :: 'f
  gemini_max_tokens :: int

record 'f generate_request =
  gr_model :: string
  gr_prompt :: string
  gr_temperature :: 'f
  gr_max_output_tokens :: int

text \<open>
  What the handlers take from outside the repository, each an unconstrained parameter.

  Of Python's floats: \<open>f_lit i\<close> is the float of an integer literal of the source (0 and
  100); \<open>f_of_int i\<close> is \<^verbatim>\<open>float(i)\<close> for an int of the request, \<open>None\<close> when it raises
  \<^verbatim>\<open>OverflowError\<close>; \<open>f_neg\<close>, \<open>f_nonpos\<close>, \<open>f_pos\<close> and \<open>f_is_zero\<close> are the comparisons
  \<^verbatim>\<open>x < 0\<close>, \<^verbatim>\<open>x <= 0\<close>, \<^verbatim>\<open>x > 0\<close> and \<^verbatim>\<open>x == 0\<close>; \<open>f_sum xs\<close> is \<^verbatim>\<open>sum(xs)\<close> for a
  sequence of floats that is not empty; \<open>f_round x n\<close> is \<^verbatim>\<open>round(x, n)\<close>; \<open>f_div\<close>,
  \<open>f_mul\<close> and \<open>f_sub\<close> are \<^verbatim>\<open>/\<close> with a divisor that is not zero, \<^verbatim>\<open>*\<close> and \<^verbatim>\<open>-\<close>;
  \<open>repr_float\<close> is the text of a float in an f-string.

  Of the runtime's library: \<open>strftime_dmy d\<close> is \<^verbatim>\<open>d.strftime('%d.%m.%Y')\<close>;
  \<open>read_digit t\<close> reads one decimal digit, of any script, at the start of a text and
  gives its value and the rest of the text (the class \<^verbatim>\<open>\d\<close> of a pattern).

  Of the store's driver: \<open>bind_real x\<close> is the value that a float column keeps for
  \<open>x\<close>, or the error of the statement; \<open>bind_text v\<close> is what a text column keeps for
  a value that is neither a string nor \<^verbatim>\<open>None\<close>; \<open>bind_ident v\<close> is the integer with
  which such a value, or a float, compares equal as a primary key, if there is one.

  \<open>generate_content\<close> is the external text service: it raises, returns nothing, or
  returns a text.
\<close>

record 'f env =
  f_lit :: "int \<Rightarrow> 'f"
  f_of_int :: "int \<Rightarrow> 'f option"
  f_neg :: "'f \<Rightarrow> bool"
  f_nonpos :: "'f \<Rightarrow> bool"
  f_pos :: "'f \<Rightarrow> bool"
  f_is_zero :: "'f \<Rightarrow> bool"
  f_sum :: "'f list \<Rightarrow> 'f"
  f_round :: "'f \<Rightarrow> nat \<Rightarrow> 'f"
  f_div :: "'f \<Rightarrow> 'f \<Rightarrow> 'f"
  f_mul :: "'f \<Rightarrow> 'f \<Rightarrow> 'f"
  f_sub :: "'f \<Rightarrow> 'f \<Rightarrow> 'f"
  repr_float :: "'f \<Rightarrow> string"
  strftime_dmy :: "date \<Rightarrow> string"
  read_digit :: "string \<Rightarrow> (nat \<times> string) option"
  bind_real :: "'f \<Rightarrow> exn + 'f"
  bind_text :: "'f json \<Rightarrow> exn + string option"
  bind_ident :: "'f json \<Rightarrow> exn + int option"
  generate_content :: "'f generate_request \<Rightarrow> exn + string option"

section \<open>Numbers\<close>

text \<open>
  \<^verbatim>\<open>sum(xs)\<close> over floats: the int \<^verbatim>\<open>0\<close> when there is none. \<^verbatim>\<open>round(x, n)\<close> returns an
  int unchanged for \<open>n \<ge> 0\<close>. An int operand of a float operation is converted first;
  in the source such an operand is a literal or the empty sum.
\<close>

definition py_sum :: "'f env \<Rightarrow> 'f list \<Rightarrow> 'f pynum" where
  "py_sum e xs = (if xs = [] then PInt 0 else PFloat (f_sum e xs))"

fun py_round :: "'f env \<Rightarrow> 'f pynum \<Rightarrow> nat \<Rightarrow> 'f pynum" where
  "py_round e (PInt i) n = PInt i"
| "py_round e (PFloat x) n = PFloat (f_round e x n)"

fun as_float :: "'f env \<Rightarrow> 'f pynum \<Rightarrow> 'f" where
  "as_float e (PInt i) = f_lit e i"
| "as_float e (PFloat x) = x"

text \<open>\<^verbatim>\<open>a / b\<close> with a float \<open>b\<close> raises exactly when \<^verbatim>\<open>b == 0\<close>.\<close>

definition py_truediv :: "'f env \<Rightarrow> 'f pynum \<Rightarrow> 'f \<Rightarrow> exn + 'f" where
  "py_truediv e a b =
     (if f_is_zero e b then Inl ZeroDivisionError else Inr (f_div e (as_float e a) b))"

text \<open>\<^verbatim>\<open>max(0, x)\<close> returns the first argument unless the second is greater.\<close>

definition py_max0 :: "'f env \<Rightarrow> 'f \<Rightarrow> 'f pynum" where
  "py_max0 e x = (if f_pos e x then PFloat x else PInt 0)"

text \<open>\<^verbatim>\<open>n < 0\<close>, \<^verbatim>\<open>n <= 0\<close> and \<^verbatim>\<open>float(n)\<close> for a number of the request.\<close>

fun py_neg :: "'f env \<Rightarrow> 'f pynum \<Rightarrow> bool" where
  "py_neg e (PInt i) = (i < 0)"
| "py_neg e (PFloat x) = f_neg e x"

fun py_nonpos :: "'f env \<Rightarrow> 'f pynum \<Rightarrow> bool" where
  "py_nonpos e (PInt i) = (i \<le> 0)"
| "py_nonpos e (PFloat x) = f_nonpos e x"

fun py_float :: "'f env \<Rightarrow> 'f pynum \<Rightarrow> exn + 'f" where
  "py_float e (PInt i) = (case f_of_int e i of None \<Rightarrow> Inl OverflowError | Some x \<Rightarrow> Inr x)"
| "py_float e (PFloat x) = Inr x"

text \<open>\<^verbatim>\<open>str(i)\<close> of an int.\<close>

function str_nat :: "nat \<Rightarrow> string" where
  "str_nat n =
     (if n < 10 then [char_of (48 + n)]
      else str_nat (n div 10) @ [char_of (48 + n mod 10)])"
  by pat_completeness auto
termination
  by (relation "measure (\<lambda>n. n)") auto

definition str_int :: "int \<Rightarrow> string" where
  "str_int i = (if i < 0 then CHR ''-'' # str_nat (nat (- i)) else str_nat (nat i))"

text \<open>A number inside an f-string.\<close>

fun fmt_num :: "'f env \<Rightarrow> 'f pynum \<Rightarrow> string" where
  "fmt_num e (PInt i) = str_int i"
| "fmt_num e (PFloat x) = repr_float e x"

section \<open>The store (models.py)\<close>

text \<open>
  The three tables, each a list of rows in insertion order. Field names carry the
  table's initial, since the three classes share the names \<^verbatim>\<open>id\<close> and \<^verbatim>\<open>created_at\<close>.
  A timestamp is a number of clock ticks.
\<close>

record 'f module =
  m_id :: int
  m_name :: string
  m_target_hours :: 'f
  m_exam_date :: "date option"
  m_created_at :: nat

record 'f learning_session =
  s_id :: int
  s_module_id :: int
  s_duration :: 'f
  s_date :: date
  s_notes :: "string option"
  s_created_at :: nat

record ai_recommendation =
  r_id :: int
  r_recommendation_text :: string
  r_created_at :: nat

record 'f db =
  modules :: "'f module list"
  sessions :: "'f learning_session list"
  recommendations :: "ai_recommendation list"

definition empty_db :: "'f db" where
  "empty_db = \<lparr>modules = [], sessions = [], recommendations = []\<rparr>"

text \<open>\<^verbatim>\<open>Module.sessions\<close>: the rows of the relationship, and the back reference.\<close>

definition module_sessions :: "'f db \<Rightarrow> 'f module \<Rightarrow> 'f learning_session list" where
  "module_sessions s m = filter (\<lambda>x. s_module_id x = m_id m) (sessions s)"

definition session_module :: "'f db \<Rightarrow> 'f learning_session \<Rightarrow> 'f module option" where
  "session_module s x = find (\<lambda>m. m_id m = s_module_id x) (modules s)"

definition get_actual_hours :: "'f env \<Rightarrow> 'f db \<Rightarrow> 'f module \<Rightarrow> 'f pynum" where
  "get_actual_hours e s m =
     (let total = py_sum e (map s_duration (module_sessions s m))
      in py_round e total 2)"

definition get_progress_percentage :: "'f env \<Rightarrow> 'f db \<Rightarrow> 'f module \<Rightarrow> exn + 'f pynum" where
  "get_progress_percentage e s m =
     (if f_is_zero e (m_target_hours m) then Inr (PInt 0)
      else bind_exn (py_truediv e (get_actual_hours e s m) (m_target_hours m)) (\<lambda>q.
             Inr (PFloat (f_round e (f_mul e q (f_lit e 100)) 1))))"

text \<open>
  The dictionaries of \<^verbatim>\<open>to_dict\<close>. A date or timestamp field holds the value whose
  ISO text the source puts there.
\<close>

record 'f session_dict =
  sd_id :: int
  sd_module_id :: int
  sd_module_name :: "string option"
  sd_duration :: 'f
  sd_date :: date
  sd_notes :: "string option"
  sd_created_at :: nat

record 'f module_dict =
  md_id :: int
  md_name :: string
  md_target_hours :: 'f
  md_exam_date :: "date option"
  md_created_at :: nat
  md_actual_hours :: "'f pynum"
  md_progress_percentage :: "'f pynum"
  md_sessions :: "'f session_dict list option"

record recommendation_dict =
  rd_id :: int
  rd_recommendation_text :: string
  rd_created_at :: nat

definition session_to_dict :: "'f db \<Rightarrow> 'f learning_session \<Rightarrow> 'f session_dict" where
  "session_to_dict s x =
     \<lparr>sd_id = s_id x, sd_module_id = s_module_id x,
      sd_module_name = map_option m_name (session_module s x),
      sd_duration = s_duration x, sd_date = s_date x, sd_notes = s_notes x,
      sd_created_at = s_created_at x\<rparr>"

definition module_to_dict :: "'f env \<Rightarrow> 'f db \<Rightarrow> bool \<Rightarrow> 'f module \<Rightarrow> exn + 'f module_dict" where
  "module_to_dict e s include_sessions m =
     bind_exn (get_progress_percentage e s m) (\<lambda>p. Inr
        \<lparr>md_id = m_id m, md_name = m_name m, md_target_hours = m_target_hours m,
         md_exam_date = m_exam_date m, md_created_at = m_created_at m,
         md_actual_hours = get_actual_hours e s m, md_progress_percentage = p,
         md_sessions = (if include_sessions
                        then Some (map (session_to_dict s) (module_sessions s m))
                        else None)\<rparr>)"

definition recommendation_to_dict :: "ai_recommendation \<Rightarrow> recommendation_dict" where
  "recommendation_to_dict r =
     \<lparr>rd_id = r_id r, rd_recommendation_text = r_recommendation_text r,
      rd_created_at = r_created_at r\<rparr>"

section \<open>Reading request data\<close>

text \<open>Truthiness, as \<^verbatim>\<open>if x:\<close> and \<^verbatim>\<open>not x\<close> test it.\<close>

fun py_truthy :: "'f env \<Rightarrow> 'f json \<Rightarrow> bool" where
  "py_truthy e JNull = False"
| "py_truthy e (JBool b) = b"
| "py_truthy e (JInt i) = (i \<noteq> 0)"
| "py_truthy e (JFloat x) = (\<not> f_is_zero e x)"
| "py_truthy e (JStr t) = (t \<noteq> [])"
| "py_truthy e (JList xs) = (xs \<noteq> [])"
| "py_truthy e (JObj kvs) = (kvs \<noteq> [])"

text \<open>The number that a value is in a comparison with \<^verbatim>\<open>0\<close> or under \<^verbatim>\<open>float()\<close>; a bool is an int.\<close>

fun py_number :: "'f json \<Rightarrow> 'f pynum option" where
  "py_number (JBool b) = Some (PInt (if b then 1 else 0))"
| "py_number (JInt i) = Some (PInt i)"
| "py_number (JFloat x) = Some (PFloat x)"
| "py_number _ = None"

fun is_prefix :: "'a list \<Rightarrow> 'a list \<Rightarrow> bool" where
  "is_prefix [] ys = True"
| "is_prefix (x # xs) [] = False"
| "is_prefix (x # xs) (y # ys) = (x = y \<and> is_prefix xs ys)"

fun is_substring :: "'a list \<Rightarrow> 'a list \<Rightarrow> bool" where
  "is_substring xs [] = (xs = [])"
| "is_substring xs (y # ys) = (is_prefix xs (y # ys) \<or> is_substring xs ys)"

text \<open>
  \<^verbatim>\<open>key in data\<close>: key membership in a dict, element membership in a list, substring
  test in a string, and a \<^verbatim>\<open>TypeError\<close> for a value that is not a container.
\<close>

fun is_str :: "string \<Rightarrow> 'f json \<Rightarrow> bool" where
  "is_str k (JStr t) = (t = k)"
| "is_str k _ = False"

fun py_contains :: "string \<Rightarrow> 'f json \<Rightarrow> exn + bool" where
  "py_contains k (JObj kvs) = Inr (map_of kvs k \<noteq> None)"
| "py_contains k (JList xs) = Inr (list_ex (is_str k) xs)"
| "py_contains k (JStr t) = Inr (is_substring k t)"
| "py_contains k _ = Inl TypeError"

text \<open>\<^verbatim>\<open>data[key]\<close> with a string key.\<close>

fun py_getitem :: "'f json \<Rightarrow> string \<Rightarrow> exn + 'f json" where
  "py_getitem (JObj kvs) k = (case map_of kvs k of None \<Rightarrow> Inl KeyError | Some v \<Rightarrow> Inr v)"
| "py_getitem _ k = Inl TypeError"

text \<open>\<^verbatim>\<open>data.get(key, default)\<close>\<close>

fun py_get :: "'f json \<Rightarrow> string \<Rightarrow> 'f json \<Rightarrow> exn + 'f json" where
  "py_get (JObj kvs) k dflt = (case map_of kvs k of None \<Rightarrow> Inr dflt | Some v \<Rightarrow> Inr v)"
| "py_get _ k dflt = Inl AttributeError"

section \<open>Parsing a date\<close>

text \<open>
  \<^verbatim>\<open>datetime.strptime(s, '%Y-%m-%d')\<close> matches the text against the pattern
  \<^verbatim>\<open>(\d\d\d\d)-(1[0-2]|0[1-9]|[1-9])-(3[0-1]|[1-2]\d|0[1-9]|[1-9]| [1-9])\<close>
  from its start, the first alternative that lets the whole pattern match winning;
  it fails when text remains after the match or when year, month and day are not a date.
  The class \<^verbatim>\<open>\d\<close> is the environment's \<open>read_digit\<close>; the ranges in brackets are ASCII.
\<close>

definition digit_val :: "char \<Rightarrow> nat" where
  "digit_val c = of_char c - 48"

definition in_range :: "char \<Rightarrow> nat \<Rightarrow> nat \<Rightarrow> bool" where
  "in_range c lo hi = (48 + lo \<le> (of_char c :: nat) \<and> (of_char c :: nat) \<le> 48 + hi)"

definition year_matches :: "'f env \<Rightarrow> string \<Rightarrow> (nat \<times> string) list" where
  "year_matches e s =
     (case read_digit e s of None \<Rightarrow> [] | Some (a, s1) \<Rightarrow>
      case read_digit e s1 of None \<Rightarrow> [] | Some (b, s2) \<Rightarrow>
      case read_digit e s2 of None \<Rightarrow> [] | Some (c, s3) \<Rightarrow>
      case read_digit e s3 of None \<Rightarrow> [] | Some (d, s4) \<Rightarrow>
        [(1000 * a + 100 * b + 10 * c + d, s4)])"

fun two_chars :: "string \<Rightarrow> (char \<Rightarrow> char \<Rightarrow> bool) \<Rightarrow> (char \<Rightarrow> char \<Rightarrow> nat) \<Rightarrow> (nat \<times> string) list" where
  "two_chars (a # b # t) ok v = (if ok a b then [(v a b, t)] else [])"
| "two_chars _ ok v = []"

fun one_char :: "string \<Rightarrow> (nat \<times> string) list" where
  "one_char (a # t) = (if in_range a 1 9 then [(digit_val a, t)] else [])"
| "one_char _ = []"

fun char_then_digit :: "'f env \<Rightarrow> string \<Rightarrow> (nat \<times> string) list" where
  "char_then_digit e (a # t) =
     (if in_range a 1 2
      then (case read_digit e t of None \<Rightarrow> [] | Some (v, r) \<Rightarrow> [(10 * digit_val a + v, r)])
      else [])"
| "char_then_digit e _ = []"

definition month_matches :: "string \<Rightarrow> (nat \<times> string) list" where
  "month_matches s =
     two_chars s (\<lambda>a b. a = CHR ''1'' \<and> in_range b 0 2) (\<lambda>a b. 10 + digit_val b)
     @ two_chars s (\<lambda>a b. a = CHR ''0'' \<and> in_range b 1 9) (\<lambda>a b. digit_val b)
     @ one_char s"

definition day_matches :: "'f env \<Rightarrow> string \<Rightarrow> (nat \<times> string) list" where
  "day_matches e s =
     two_chars s (\<lambda>a b. a = CHR ''3'' \<and> in_range b 0 1) (\<lambda>a b. 30 + digit_val b)
     @ char_then_digit e s
     @ two_chars s (\<lambda>a b. a = CHR ''0'' \<and> in_range b 1 9) (\<lambda>a b. digit_val b)
     @ one_char s
     @ two_chars s (\<lambda>a b. a = CHR '' '' \<and> in_range b 1 9) (\<lambda>a b. digit_val b)"

fun after_dash :: "string \<Rightarrow> string list" where
  "after_dash (c # t) = (if c = CHR ''-'' then [t] else [])"
| "after_dash [] = []"

definition ymd_matches :: "'f env \<Rightarrow> string \<Rightarrow> (date \<times> string) list" where
  "ymd_matches e s =
     concat (map (\<lambda>(y, r1).
       concat (map (\<lambda>r2.
         concat (map (\<lambda>(m, r3).
           concat (map (\<lambda>r4.
             map (\<lambda>(d, r5). (\<lparr>year = y, month = m, day = d\<rparr>, r5)) (day_matches e r4))
           (after_dash r3)))
         (month_matches r2)))
       (after_dash r1)))
     (year_matches e s))"

definition strptime_ymd :: "'f env \<Rightarrow> string \<Rightarrow> exn + date" where
  "strptime_ymd e s =
     (case ymd_matches e s of
        [] \<Rightarrow> Inl ValueError
      | (d, rest) # _ \<Rightarrow>
          if rest \<noteq> [] then Inl ValueError
          else if valid_date d then Inr d else Inl ValueError)"

text \<open>\<^verbatim>\<open>validate_date\<close>: a value that is not a string makes \<^verbatim>\<open>strptime\<close> raise \<^verbatim>\<open>TypeError\<close>.\<close>

definition validate_date :: "'f env \<Rightarrow> 'f json \<Rightarrow> exn + date option" where
  "validate_date e date_string =
     (case (case date_string of JStr t \<Rightarrow> strptime_ymd e t | _ \<Rightarrow> Inl TypeError) of
        Inr d \<Rightarrow> Inr (Some d)
      | Inl ex \<Rightarrow> (if ex = ValueError \<or> ex = TypeError then Inr None else Inl ex))"

section \<open>Responses\<close>

text \<open>
  A response is the body given to \<^verbatim>\<open>jsonify\<close> and the status code. \<open>ErrorExn e\<close> is the
  body \<^verbatim>\<open>{'error': str(e)}\<close> of the generic handlers.
\<close>

record 'f dashboard_statistics =
  hours_today :: "'f pynum"
  hours_week :: "'f pynum"
  hours_month :: "'f pynum"
  sessions_today :: nat
  sessions_week :: nat
  total_modules :: nat

record 'f dashboard_data =
  statistics :: "'f dashboard_statistics"
  dd_modules :: "'f module_dict list"
  last_recommendation :: "recommendation_dict option"

datatype 'f body =
    Error string
  | ErrorExn exn
  | ErrorMessage string string
  | ErrorMessageExn string exn
  | Message string
  | ModuleBody "'f module_dict"
  | SessionBody "'f session_dict"
  | SessionList "'f session_dict list"
  | RecommendationBody recommendation_dict
  | DashboardBody "'f dashboard_data"

type_synonym 'f response = "'f body \<times> nat"

section \<open>Fixed texts\<close>

text \<open>The texts of the source that are not plain ASCII, byte by byte.\<close>

definition msg_invalid_date :: string where
  "msg_invalid_date =
     ''Ung''
     @ [CHR 0xC3, CHR 0xBC]
     @ ''ltiges Datumsformat. Nutze YYYY-MM-DD''"

definition msg_deleted_suffix :: string where
  "msg_deleted_suffix =
     [CHR 0x22]
     @ '' erfolgreich gel''
     @ [CHR 0xC3, CHR 0xB6]
     @ ''scht''"

definition msg_duration :: string where
  "msg_duration =
     ''duration muss gr''
     @ [CHR 0xC3, CHR 0xB6, CHR 0xC3, CHR 0x9F]
     @ ''er als 0 sein''"

definition msg_session_deleted :: string where
  "msg_session_deleted =
     ''Session erfolgreich gel''
     @ [CHR 0xC3, CHR 0xB6]
     @ ''scht''"

definition prompt_header :: string where
  "prompt_header =
     ''Ich lerne f''
     @ [CHR 0xC3, CHR 0xBC]
     @ ''r folgende Module:\<newline>\<newline>''"

definition exam_prefix :: string where
  "exam_prefix =
     '' (Pr''
     @ [CHR 0xC3, CHR 0xBC]
     @ ''fung am ''"

definition plan_instructions :: string where
  "plan_instructions =
     ''\<newline>        Du bist ein intelligenter Lernplan-Generator.\<newline>''
     @ ''        Erstelle auf Basis der folgenden Eingaben einen detaillierten,''
     @ '' realistischen Lernplan f''
     @ [CHR 0xC3, CHR 0xBC]
     @ ''r die n''
     @ [CHR 0xC3, CHR 0xA4]
     @ ''chsten 2 Wochen.\<newline>\<newline>    ''
     @ ''    **Ziel:**\<newline>        Erstelle einen Lernplan, der die Vorbere''
     @ ''itung optimal auf die kommenden Pr''
     @ [CHR 0xC3, CHR 0xBC]
     @ ''fungen verteilt.\<newline>        Gib''
     @ '' f''
     @ [CHR 0xC3, CHR 0xBC]
     @ ''r jeden Tag folgendes an:\<newline>        - Datum\<newline>        - ''
     @ ''zu lernende Module\<newline>        - empfohlene Lernzeit in Stunden pr''
     @ ''o Modul\<newline>        - ggf. kurze Lernziele oder Schwerpunkt-Themen''
     @ ''\<newline>\<newline>        **Anforderungen an die Ausgabe:**\<newline>  ''
     @ ''      - Zeitraum: die n''
     @ [CHR 0xC3, CHR 0xA4]
     @ ''chsten 14 Tage (beginnend ab heute oder ab ange''
     @ ''gebenem Startdatum)\<newline>        - Ausgabe im klaren, tabellarische''
     @ ''n oder Listenformat\<newline>        - Achte auf eine realistische Vert''
     @ ''eilung der Lernzeit (keine 10 Stunden am St''
     @ [CHR 0xC3, CHR 0xBC]
     @ ''ck)\<newline>        - Ber''
     @ [CHR 0xC3, CHR 0xBC]
     @ ''ck''
     @ ''sichtige Ruhetage oder k''
     @ [CHR 0xC3, CHR 0xBC]
     @ ''rzere Lerneinheiten an Wochenenden\<newline>\<newline>''
     @ ''        **Format der Antwort:**\<newline>        Tag (Datum):\<newline> ''
     @ ''       - Modul: X Stunden ''
     @ [CHR 0xE2, CHR 0x80, CHR 0x93]
     @ '' Thema/Fokus: ...\<newline>        ''"

section \<open>Store primitives\<close>

text \<open>
  A new row gets the greatest id of its table plus one (1 in an empty table), the row
  id allocation of the default SQLite store.
\<close>

definition next_id :: "int list \<Rightarrow> int" where
  "next_id ids = foldr max ids 0 + 1"

text \<open>
  An int is bound to a statement as a signed 64-bit integer; the driver raises
  \<^verbatim>\<open>OverflowError\<close> for an int outside that range.
\<close>

definition in_int64 :: "int \<Rightarrow> bool" where
  "in_int64 i = (- 9223372036854775808 \<le> i \<and> i < 9223372036854775808)"

definition bind_int :: "int \<Rightarrow> exn + int" where
  "bind_int i = (if in_int64 i then Inr i else Inl OverflowError)"

text \<open>
  The identifier of \<^verbatim>\<open>Query.get(ident)\<close>: the integer primary key that a value of the
  request compares equal with, \<open>None\<close> when there is none. An int is bound as it is; for
  any other value the answer is the driver's.
\<close>

fun db_ident :: "'f env \<Rightarrow> 'f json \<Rightarrow> exn + int option" where
  "db_ident e (JInt i) = bind_exn (bind_int i) (\<lambda>k. Inr (Some k))"
| "db_ident e v = bind_ident e v"

text \<open>
  A value bound to a text column: \<^verbatim>\<open>None\<close> is NULL, a string is kept; for any other
  value the answer is the driver's.
\<close>

fun db_text :: "'f env \<Rightarrow> 'f json \<Rightarrow> exn + string option" where
  "db_text e JNull = Inr None"
| "db_text e (JStr t) = Inr (Some t)"
| "db_text e v = bind_text e v"

definition query_get_module :: "'f db \<Rightarrow> int \<Rightarrow> 'f module option" where
  "query_get_module s i = find (\<lambda>m. m_id m = i) (modules s)"

definition query_get_session :: "'f db \<Rightarrow> int \<Rightarrow> 'f learning_session option" where
  "query_get_session s i = find (\<lambda>x. s_id x = i) (sessions s)"

text \<open>\<^verbatim>\<open>get_or_404\<close> raises the framework's \<open>NotFound\<close> when there is no such row.\<close>

definition get_or_404 :: "'a option \<Rightarrow> exn + 'a" where
  "get_or_404 r = (case r of None \<Rightarrow> Inl NotFound | Some x \<Rightarrow> Inr x)"

section \<open>Helpers of app.py\<close>

definition get_sessions_by_date_range ::
    "'f db \<Rightarrow> date \<Rightarrow> date \<Rightarrow> 'f learning_session list" where
  "get_sessions_by_date_range s start_date end_date =
     filter (\<lambda>x. date_le start_date (s_date x) \<and> date_le (s_date x) end_date) (sessions s)"

definition calculate_total_hours :: "'f env \<Rightarrow> 'f learning_session list \<Rightarrow> 'f pynum" where
  "calculate_total_hours e xs = py_round e (py_sum e (map s_duration xs)) 2"

section \<open>Modules\<close>

text \<open>
  Each handler is a \<^verbatim>\<open>try\<close> body, in which a raised exception is \<open>Inl\<close>, and the
  \<^verbatim>\<open>except Exception\<close> clause around it, which rolls the store back and answers 500.

  \<open>add_module\<close> is the end of \<^verbatim>\<open>create_module\<close>: the constructor call, which reads the
  name and converts the target, and the commit, in which the store binds the name and
  the target. The name column is not nullable.
\<close>

definition add_module ::
    "'f env \<Rightarrow> nat \<Rightarrow> 'f json \<Rightarrow> 'f pynum \<Rightarrow> date option \<Rightarrow> 'f db \<Rightarrow> exn + ('f response \<times> 'f db)" where
  "add_module e now data target exam_date s =
     bind_exn (py_getitem data ''name'') (\<lambda>name.
     bind_exn (py_float e target) (\<lambda>target_hours.
     bind_exn (db_text e name) (\<lambda>column.
       case column of
         None \<Rightarrow> Inl IntegrityError
       | Some n \<Rightarrow>
           bind_exn (bind_real e target_hours) (\<lambda>stored.
             (let m = \<lparr>m_id = next_id (map m_id (modules s)), m_name = n,
                       m_target_hours = stored, m_exam_date = exam_date,
                       m_created_at = now\<rparr>;
                  s' = s\<lparr>modules := modules s @ [m]\<rparr>
              in bind_exn (module_to_dict e s' False m) (\<lambda>d.
                   Inr ((ModuleBody d, 201), s')))))))"

definition create_module_try ::
    "'f env \<Rightarrow> nat \<Rightarrow> 'f request_body \<Rightarrow> 'f db \<Rightarrow> exn + ('f response \<times> 'f db)" where
  "create_module_try e now body s =
     bind_exn (get_json body) (\<lambda>data.
     (let required = (Error ''Name und target_hours sind erforderlich'', 400)
      in if \<not> py_truthy e data then Inr (required, s)
      else bind_exn (py_contains ''name'' data) (\<lambda>has_name.
        if \<not> has_name then Inr (required, s)
        else bind_exn (py_contains ''target_hours'' data) (\<lambda>has_target.
          if \<not> has_target then Inr (required, s)
          else bind_exn (py_getitem data ''target_hours'') (\<lambda>th.
            case py_number th of
              None \<Rightarrow> Inl TypeError
            | Some target \<Rightarrow>
                if py_neg e target
                then Inr ((Error ''target_hours darf nicht negativ sein'', 400), s)
                else bind_exn (py_contains ''exam_date'' data) (\<lambda>has_exam.
                  bind_exn (if has_exam then py_getitem data ''exam_date'' else Inr JNull) (\<lambda>exam.
                    if has_exam \<and> py_truthy e exam
                    then bind_exn (validate_date e exam) (\<lambda>exam_date.
                      case exam_date of
                        None \<Rightarrow> Inr ((Error msg_invalid_date, 400), s)
                      | Some d \<Rightarrow> add_module e now data target (Some d) s)
                    else add_module e now data target None s)))))))"

definition create_module ::
    "'f env \<Rightarrow> nat \<Rightarrow> 'f request_body \<Rightarrow> 'f db \<Rightarrow> 'f response \<times> 'f db" where
  "create_module e now body s =
     (case create_module_try e now body s of
        Inl ex \<Rightarrow> ((ErrorExn ex, 500), s)
      | Inr r \<Rightarrow> r)"

text \<open>
  \<open>module_id\<close> is the integer of the URL. Deleting a module deletes the rows of its
  \<^verbatim>\<open>sessions\<close> relationship with it (\<^verbatim>\<open>cascade='all, delete-orphan'\<close>).
\<close>

definition delete_module_try :: "int \<Rightarrow> 'f db \<Rightarrow> exn + ('f response \<times> 'f db)" where
  "delete_module_try module_id s =
     bind_exn (bind_int module_id) (\<lambda>i.
     bind_exn (get_or_404 (query_get_module s i)) (\<lambda>m.
       Inr ((Message (''Modul '' @ [CHR 0x22] @ m_name m @ msg_deleted_suffix), 200),
            s\<lparr>modules := filter (\<lambda>x. m_id x \<noteq> m_id m) (modules s),
              sessions := filter (\<lambda>x. s_module_id x \<noteq> m_id m) (sessions s)\<rparr>)))"

definition delete_module :: "int \<Rightarrow> 'f db \<Rightarrow> 'f response \<times> 'f db" where
  "delete_module module_id s =
     (case delete_module_try module_id s of
        Inl ex \<Rightarrow> ((ErrorExn ex, 500), s)
      | Inr r \<Rightarrow> r)"

section \<open>Sessions\<close>

text \<open>The loop over \<^verbatim>\<open>required_fields\<close>: the first field that is not in the data.\<close>

fun first_missing :: "string list \<Rightarrow> 'f json \<Rightarrow> exn + string option" where
  "first_missing [] data = Inr None"
| "first_missing (field # others) data =
     bind_exn (py_contains field data) (\<lambda>present.
       if \<not> present then Inr (Some field) else first_missing others data)"

text \<open>
  \<open>add_session\<close> is the end of \<^verbatim>\<open>create_session\<close>: the constructor call, which converts
  the duration and reads the notes, and the commit, in which the store binds them.
\<close>

definition add_session ::
    "'f env \<Rightarrow> nat \<Rightarrow> 'f json \<Rightarrow> int \<Rightarrow> 'f pynum \<Rightarrow> date \<Rightarrow> 'f db \<Rightarrow> exn + ('f response \<times> 'f db)" where
  "add_session e now data module_id duration session_date s =
     bind_exn (py_float e duration) (\<lambda>hours.
     bind_exn (py_get data ''notes'' (JStr [])) (\<lambda>nt.
     bind_exn (bind_real e hours) (\<lambda>stored.
     bind_exn (db_text e nt) (\<lambda>notes.
       (let x = \<lparr>s_id = next_id (map s_id (sessions s)), s_module_id = module_id,
                 s_duration = stored, s_date = session_date, s_notes = notes,
                 s_created_at = now\<rparr>;
            s' = s\<lparr>sessions := sessions s @ [x]\<rparr>
        in Inr ((SessionBody (session_to_dict s' x), 201), s'))))))"

definition create_session_try ::
    "'f env \<Rightarrow> nat \<Rightarrow> 'f request_body \<Rightarrow> 'f db \<Rightarrow> exn + ('f response \<times> 'f db)" where
  "create_session_try e now body s =
     bind_exn (get_json body) (\<lambda>data.
     bind_exn (first_missing [''module_id'', ''duration'', ''date''] data) (\<lambda>missing.
       case missing of
         Some field \<Rightarrow> Inr ((Error (field @ '' ist erforderlich''), 400), s)
       | None \<Rightarrow>
           bind_exn (py_getitem data ''duration'') (\<lambda>dur.
             case py_number dur of
               None \<Rightarrow> Inl TypeError
             | Some duration \<Rightarrow>
                 if py_nonpos e duration then Inr ((Error msg_duration, 400), s)
                 else bind_exn (py_getitem data ''module_id'') (\<lambda>mid.
                   bind_exn (db_ident e mid) (\<lambda>ident.
                     case (case ident of
                             None \<Rightarrow> None
                           | Some i \<Rightarrow> map_option (\<lambda>m. (i, m)) (query_get_module s i)) of
                       None \<Rightarrow> Inr ((Error ''Modul nicht gefunden'', 404), s)
                     | Some (module_id, m) \<Rightarrow>
                         bind_exn (py_getitem data ''date'') (\<lambda>dt.
                         bind_exn (validate_date e dt) (\<lambda>session_date.
                           case session_date of
                             None \<Rightarrow> Inr ((Error msg_invalid_date, 400), s)
                           | Some d \<Rightarrow> add_session e now data module_id duration d s)))))))"

definition create_session ::
    "'f env \<Rightarrow> nat \<Rightarrow> 'f request_body \<Rightarrow> 'f db \<Rightarrow> 'f response \<times> 'f db" where
  "create_session e now body s =
     (case create_session_try e now body s of
        Inl ex \<Rightarrow> ((ErrorExn ex, 500), s)
      | Inr r \<Rightarrow> r)"

text \<open>
  \<^verbatim>\<open>order_by(LearningSession.date.desc())\<close>: later dates first, rows of one date in
  table order. \<^verbatim>\<open>limit(n)\<close> binds \<open>n\<close> to the statement and keeps the first \<open>n\<close> rows;
  the store reads a negative limit as no limit.
\<close>

fun insort_desc :: "'f learning_session \<Rightarrow> 'f learning_session list \<Rightarrow> 'f learning_session list" where
  "insort_desc x [] = [x]"
| "insort_desc x (y # ys) =
     (if date_le (s_date y) (s_date x) then x # y # ys else y # insort_desc x ys)"

definition order_by_date_desc :: "'f learning_session list \<Rightarrow> 'f learning_session list" where
  "order_by_date_desc xs = foldr insort_desc xs []"

definition sql_limit :: "int \<Rightarrow> 'a list \<Rightarrow> exn + 'a list" where
  "sql_limit n xs =
     bind_exn (bind_int n) (\<lambda>k. Inr (if k < 0 then xs else take (nat k) xs))"

text \<open>
  \<open>limit\<close> is \<^verbatim>\<open>request.args.get('limit', type=int)\<close>: \<open>None\<close> when the parameter is
  absent or is not an integer.
\<close>

definition get_sessions_try :: "int option \<Rightarrow> 'f db \<Rightarrow> exn + 'f response" where
  "get_sessions_try limit s =
     (let query = order_by_date_desc (sessions s)
      in bind_exn (case limit of
                     None \<Rightarrow> Inr query
                   | Some n \<Rightarrow> if n \<noteq> 0 then sql_limit n query else Inr query) (\<lambda>rows.
           Inr (SessionList (map (session_to_dict s) rows), 200)))"

definition get_sessions :: "int option \<Rightarrow> 'f db \<Rightarrow> 'f response" where
  "get_sessions limit s =
     (case get_sessions_try limit s of
        Inl ex \<Rightarrow> (ErrorExn ex, 500)
      | Inr r \<Rightarrow> r)"

text \<open>\<open>session_id\<close> is the integer of the URL.\<close>

definition delete_session_try :: "int \<Rightarrow> 'f db \<Rightarrow> exn + ('f response \<times> 'f db)" where
  "delete_session_try session_id s =
     bind_exn (bind_int session_id) (\<lambda>i.
     bind_exn (get_or_404 (query_get_session s i)) (\<lambda>x.
       Inr ((Message msg_session_deleted, 200),
            s\<lparr>sessions := filter (\<lambda>y. s_id y \<noteq> s_id x) (sessions s)\<rparr>)))"

definition delete_session :: "int \<Rightarrow> 'f db \<Rightarrow> 'f response \<times> 'f db" where
  "delete_session session_id s =
     (case delete_session_try session_id s of
        Inl ex \<Rightarrow> ((ErrorExn ex, 500), s)
      | Inr r \<Rightarrow> r)"

section \<open>Recommendations\<close>

text \<open>
  The handler's third result is the list of requests that it has sent to the service.
\<close>

definition remaining_hours :: "'f env \<Rightarrow> 'f db \<Rightarrow> 'f module \<Rightarrow> 'f pynum" where
  "remaining_hours e s m =
     py_max0 e (f_sub e (m_target_hours m) (as_float e (get_actual_hours e s m)))"

text \<open>What one turn of the loop over the modules appends to the prompt.\<close>

definition module_line :: "'f env \<Rightarrow> 'f db \<Rightarrow> 'f module \<Rightarrow> string" where
  "module_line e s m =
     (let actual_hours = get_actual_hours e s m;
          remaining = remaining_hours e s m;
          exam_info = (case m_exam_date m of
                         Some d \<Rightarrow> exam_prefix @ strftime_dmy e d @ '')''
                       | None \<Rightarrow> [])
      in ''- '' @ m_name m @ '': Ziel '' @ fmt_num e (PFloat (m_target_hours m))
         @ ''h, bereits gelernt '' @ fmt_num e actual_hours @ ''h, ''
         @ ''noch '' @ fmt_num e remaining @ ''h offen'' @ exam_info @ ''\<newline>'')"

definition build_prompt :: "'f env \<Rightarrow> 'f db \<Rightarrow> 'f module list \<Rightarrow> string" where
  "build_prompt e s ms =
     foldl (\<lambda>prompt m. prompt @ module_line e s m) prompt_header ms @ plan_instructions"

definition create_recommendation ::
    "'f env \<Rightarrow> 'f config \<Rightarrow> nat \<Rightarrow> 'f db \<Rightarrow> 'f response \<times> 'f db \<times> 'f generate_request list" where
  "create_recommendation e cfg now s =
     (if gemini_api_key cfg = [] \<or> gemini_api_key cfg = ''your-api-key-here''
      then ((ErrorMessage ''Gemini API nicht konfiguriert''
               ''Bitte GEMINI_API_KEY Umgebungsvariable setzen'', 503), s, [])
      else let ms = modules s in
        if ms = []
        then ((ErrorMessage ''Keine Module vorhanden''
                 ''Bitte erstelle zuerst Module, bevor du eine Empfehlung anforderst'', 400),
              s, [])
        else
          (let req = \<lparr>gr_model = gemini_model cfg, gr_prompt = build_prompt e s ms,
                      gr_temperature = gemini_temperature cfg,
                      gr_max_output_tokens = gemini_max_tokens cfg\<rparr>
           in case bind_exn (generate_content e req) (\<lambda>response.
                     case response of
                       None \<Rightarrow> Inl NoAnswer
                     | Some t \<Rightarrow> if t = [] then Inl NoAnswer else Inr t) of
                Inl ex \<Rightarrow> ((ErrorMessageExn ''Fehler bei der KI-Generierung'' ex, 500), s, [req])
              | Inr t \<Rightarrow>
                  (let r = \<lparr>r_id = next_id (map r_id (recommendations s)),
                            r_recommendation_text = t, r_created_at = now\<rparr>
                   in ((RecommendationBody (recommendation_to_dict r), 201),
                       s\<lparr>recommendations := recommendations s @ [r]\<rparr>, [req]))))"

text \<open>
  \<^verbatim>\<open>order_by(AIRecommendation.created_at.desc()).first()\<close>: a row with the greatest
  timestamp, the earliest such row of the table.
\<close>

fun latest_recommendation :: "ai_recommendation list \<Rightarrow> ai_recommendation option" where
  "latest_recommendation [] = None"
| "latest_recommendation (r # rs) =
     (case latest_recommendation rs of
        None \<Rightarrow> Some r
      | Some r' \<Rightarrow> if r_created_at r < r_created_at r' then Some r' else Some r)"

section \<open>Dashboard\<close>

text \<open>\<open>today\<close> is \<^verbatim>\<open>date.today()\<close>.\<close>

definition get_dashboard_try :: "'f env \<Rightarrow> date \<Rightarrow> 'f db \<Rightarrow> exn + 'f response" where
  "get_dashboard_try e today s =
     bind_exn (date_sub_days today (weekday today)) (\<lambda>week_start.
       (let month_start = replace_day1 today;
            today_sessions = get_sessions_by_date_range s today today;
            week_sessions = get_sessions_by_date_range s week_start today;
            month_sessions = get_sessions_by_date_range s month_start today;
            ms = modules s
        in bind_exn (map_exn (module_to_dict e s False) ms) (\<lambda>dicts.
             Inr (DashboardBody
                    \<lparr>statistics =
                       \<lparr>hours_today = calculate_total_hours e today_sessions,
                        hours_week = calculate_total_hours e week_sessions,
                        hours_month = calculate_total_hours e month_sessions,
                        sessions_today = length today_sessions,
                        sessions_week = length week_sessions,
                        total_modules = length ms\<rparr>,
                     dd_modules = dicts,
                     last_recommendation =
                       map_option recommendation_to_dict
                         (latest_recommendation (recommendations s))\<rparr>, 200))))"

definition get_dashboard :: "'f env \<Rightarrow> date \<Rightarrow> 'f db \<Rightarrow> 'f response" where
  "get_dashboard e today s =
     (case get_dashboard_try e today s of
        Inl ex \<Rightarrow> (ErrorExn ex, 500)
      | Inr r \<Rightarrow> r)"

section \<open>Reachable stores\<close>

text \<open>The stores that the writing handlers produce from the empty one.\<close>

inductive reachable :: "'f db \<Rightarrow> bool" where
  start: "reachable empty_db"
| module_created: "reachable s \<Longrightarrow> reachable (snd (create_module e now body s))"
| module_deleted: "reachable s \<Longrightarrow> reachable (snd (delete_module i s))"
| session_created: "reachable s \<Longrightarrow> reachable (snd (create_session e now body s))"
| session_deleted: "reachable s \<Longrightarrow> reachable (snd (delete_session i s))"
| recommended: "reachable s \<Longrightarrow> reachable (fst (snd (create_recommendation e cfg now s)))"

definition sessions_reference_modules :: "'f db \<Rightarrow> bool" where
  "sessions_reference_modules s =
     list_all (\<lambda>x. query_get_module s (s_module_id x) \<noteq> None) (sessions s)"

section \<open>Specification values\<close>

text \<open>
  The progress of a module and the hours of a list of sessions as the specification
  words them, with Python's division, product, sum and rounding.
\<close>

definition progress_value :: "'f env \<Rightarrow> 'f db \<Rightarrow> 'f module \<Rightarrow> 'f pynum" where
  "progress_value e s m =
     (if f_is_zero e (m_target_hours m) then PInt 0
      else PFloat (f_round e
             (f_mul e (f_div e (as_float e (get_actual_hours e s m)) (m_target_hours m))
                (f_lit e 100)) 1))"

definition rounded_hours :: "'f env \<Rightarrow> 'f learning_session list \<Rightarrow> 'f pynum" where
  "rounded_hours e xs =
     (if xs = [] then PInt 0 else PFloat (f_round e (f_sum e (map s_duration xs)) 2))"

text \<open>The order of \<^verbatim>\<open>date.desc()\<close> on rows.\<close>

abbreviation later_first :: "'f learning_session \<Rightarrow> 'f learning_session \<Rightarrow> bool" where
  "later_first a b \<equiv> date_le (s_date b) (s_date a)"

text \<open>The row that a successful creation of a module adds to the store.\<close>

definition new_module :: "nat \<Rightarrow> string \<Rightarrow> 'f \<Rightarrow> date option \<Rightarrow> 'f db \<Rightarrow> 'f module" where
  "new_module now n target exam_date s =
     \<lparr>m_id = next_id (map m_id (modules s)), m_name = n, m_target_hours = target,
      m_exam_date = exam_date, m_created_at = now\<rparr>"

text \<open>
  A request to create a module is refused when the name or the target is missing, the
  target is negative, or the exam date is there, is not empty and does not parse. The
  target of a well-typed request, if there is one, is a number.
\<close>

definition module_request_rejected :: "'f env \<Rightarrow> (string \<times> 'f json) list \<Rightarrow> bool" where
  "module_request_rejected e kvs =
     (map_of kvs ''name'' = None
      \<or> (case map_of kvs ''target_hours'' of
            None \<Rightarrow> True
          | Some v \<Rightarrow> (case py_number v of None \<Rightarrow> False | Some n \<Rightarrow> py_neg e n))
      \<or> (case map_of kvs ''exam_date'' of
            None \<Rightarrow> False
          | Some v \<Rightarrow> py_truthy e v \<and> validate_date e v = Inr None))"

definition target_is_number :: "(string \<times> 'f json) list \<Rightarrow> bool" where
  "target_is_number kvs =
     (case map_of kvs ''target_hours'' of None \<Rightarrow> True | Some v \<Rightarrow> py_number v \<noteq> None)"

text \<open>The exam date that an accepted request asks for.\<close>

definition requested_exam_date :: "'f env \<Rightarrow> (string \<times> 'f json) list \<Rightarrow> date option" where
  "requested_exam_date e kvs =
     (case map_of kvs ''exam_date'' of
        None \<Rightarrow> None
      | Some v \<Rightarrow> if py_truthy e v
                  then (case validate_date e v of Inr r \<Rightarrow> r | Inl ex \<Rightarrow> None)
                  else None)"

text \<open>
  The sessions in a range of dates, both ends included, their hours and their number,
  and the dashboard that an answer carries.
\<close>

definition in_range_sessions :: "'f db \<Rightarrow> date \<Rightarrow> date \<Rightarrow> 'f learning_session list" where
  "in_range_sessions s a b =
     filter (\<lambda>x. date_le a (s_date x) \<and> date_le (s_date x) b) (sessions s)"

definition hours_between :: "'f env \<Rightarrow> 'f db \<Rightarrow> date \<Rightarrow> date \<Rightarrow> 'f pynum" where
  "hours_between e s a b = rounded_hours e (in_range_sessions s a b)"

definition count_between :: "'f db \<Rightarrow> date \<Rightarrow> date \<Rightarrow> nat" where
  "count_between s a b = length (in_range_sessions s a b)"

fun dashboard_of :: "'f response \<Rightarrow> 'f dashboard_data option" where
  "dashboard_of (DashboardBody d, code) = (if code = 200 then Some d else None)"
| "dashboard_of _ = None"

section \<open>An example environment and store\<close>

text \<open>
  For the examples the floats are rationals with exact arithmetic, rounded half to
  even, and there is no NaN; an int converts when it is below \<open>2 ^ 1024\<close> in size. A
  float is written with one decimal and a date without padding. The digits are the
  ASCII ones and the Arabic-Indic ones. The store keeps every float, keeps a number or
  a boolean as its text, refuses a list or an object, and reads a float or a text of
  ASCII digits as the integer it denotes. The service answers.
\<close>

definition round_half_even :: "rat \<Rightarrow> int" where
  "round_half_even x =
     (let f = \<lfloor>x\<rfloor>; d = x - of_int f
      in if d < 1 / 2 then f
         else if 1 / 2 < d then f + 1
         else if even f then f else f + 1)"

definition round_float :: "rat \<Rightarrow> nat \<Rightarrow> rat" where
  "round_float x n = of_int (round_half_even (x * 10 ^ n)) / 10 ^ n"

definition demo_repr :: "rat \<Rightarrow> string" where
  "demo_repr q = str_int \<lfloor>q\<rfloor> @ ''.'' @ str_nat (nat \<lfloor>(q - of_int \<lfloor>q\<rfloor>) * 10\<rfloor>)"

definition demo_read_digit :: "string \<Rightarrow> (nat \<times> string) option" where
  "demo_read_digit t =
     (case t of
        [] \<Rightarrow> None
      | a # r \<Rightarrow>
          if in_range a 0 9 then Some (digit_val a, r)
          else (case r of
                  [] \<Rightarrow> None
                | b # r' \<Rightarrow>
                    if a = CHR 0xD9 \<and> 160 \<le> (of_char b :: nat) \<and> (of_char b :: nat) \<le> 169
                    then Some (of_char b - 160, r') else None))"

definition demo_text_ident :: "string \<Rightarrow> int option" where
  "demo_text_ident t =
     (if t \<noteq> [] \<and> list_all (\<lambda>c. in_range c 0 9) t
      then Some (int (foldl (\<lambda>n c. 10 * n + digit_val c) 0 t)) else None)"

fun demo_bind_ident :: "rat json \<Rightarrow> exn + int option" where
  "demo_bind_ident JNull = Inr None"
| "demo_bind_ident (JBool b) = Inr (Some (if b then 1 else 0))"
| "demo_bind_ident (JFloat x) = Inr (if of_int \<lfloor>x\<rfloor> = x then Some \<lfloor>x\<rfloor> else None)"
| "demo_bind_ident (JStr t) = Inr (demo_text_ident t)"
| "demo_bind_ident _ = Inl InterfaceError"

fun demo_bind_text :: "rat json \<Rightarrow> exn + string option" where
  "demo_bind_text (JBool b) = Inr (Some (if b then ''1'' else ''0''))"
| "demo_bind_text (JInt i) = bind_exn (bind_int i) (\<lambda>k. Inr (Some (str_int k)))"
| "demo_bind_text (JFloat x) = Inr (Some (demo_repr x))"
| "demo_bind_text _ = Inl InterfaceError"

definition demo_env :: "rat env" where
  "demo_env =
     \<lparr>f_lit = of_int,
      f_of_int = (\<lambda>i. if \<bar>i\<bar> < 2 ^ 1024 then Some (of_int i) else None),
      f_neg = (\<lambda>x. x < 0),
      f_nonpos = (\<lambda>x. x \<le> 0),
      f_pos = (\<lambda>x. 0 < x),
      f_is_zero = (\<lambda>x. x = 0),
      f_sum = sum_list,
      f_round = round_float,
      f_div = (\<lambda>x y. x / y),
      f_mul = (\<lambda>x y. x * y),
      f_sub = (\<lambda>x y. x - y),
      repr_float = demo_repr,
      strftime_dmy = (\<lambda>d. str_nat (day d) @ ''.'' @ str_nat (month d) @ ''.'' @ str_nat (year d)),
      read_digit = demo_read_digit,
      bind_real = Inr,
      bind_text = demo_bind_text,
      bind_ident = demo_bind_ident,
      generate_content = (\<lambda>r. Inr (Some ''Plan''))\<rparr>"

definition demo_cfg :: "string \<Rightarrow> rat config" where
  "demo_cfg k = \<lparr>gemini_api_key = k, gemini_model = ''gemini-2.0-flash-exp'',
                 gemini_temperature = 7 / 10, gemini_max_tokens = 2048\<rparr>"

text \<open>
  Two modules, one of them with no target, and three sessions: on Sunday the 1st, on
  Monday the 2nd and on Thursday the 5th of November 2026, which is today.
\<close>

definition demo_analysis :: "rat module" where
  "demo_analysis =
     \<lparr>m_id = 1, m_name = ''Analysis'', m_target_hours = 40, m_exam_date = None,
      m_created_at = 0\<rparr>"

definition demo_algebra :: "rat module" where
  "demo_algebra =
     \<lparr>m_id = 2, m_name = ''Algebra'', m_target_hours = 0, m_exam_date = None,
      m_created_at = 1\<rparr>"

definition demo_today :: date where
  "demo_today = \<lparr>year = 2026, month = 11, day = 5\<rparr>"

definition demo_monday :: date where
  "demo_monday = \<lparr>year = 2026, month = 11, day = 2\<rparr>"

definition demo_db :: "rat db" where
  "demo_db =
     \<lparr>modules = [demo_analysis, demo_algebra],
      sessions =
        [\<lparr>s_id = 1, s_module_id = 1, s_duration = 5 / 2,
          s_date = \<lparr>year = 2026, month = 11, day = 2\<rparr>, s_notes = None, s_created_at = 2\<rparr>,
         \<lparr>s_id = 2, s_module_id = 2, s_duration = 3,
          s_date = \<lparr>year = 2026, month = 11, day = 5\<rparr>, s_notes = Some ''groups'',
          s_created_at = 3\<rparr>,
         \<lparr>s_id = 3, s_module_id = 1, s_duration = 1001 / 1000,
          s_date = \<lparr>year = 2026, month = 11, day = 1\<rparr>, s_notes = None, s_created_at = 4\<rparr>],
      recommendations = []\<rparr>"

text \<open>Requests for the examples.\<close>

definition demo_module_request :: "string \<Rightarrow> rat request_body" where
  "demo_module_request exam =
     Json (JObj [(''name'', JStr ''Logic''), (''target_hours'', JInt 30),
                 (''exam_date'', JStr exam)])"

definition demo_session_request :: "int \<Rightarrow> rat \<Rightarrow> string \<Rightarrow> rat request_body" where
  "demo_session_request module_id duration dt =
     Json (JObj [(''module_id'', JInt module_id), (''duration'', JFloat duration),
                 (''date'', JStr dt)])"

section \<open>Progress of a module\<close>

lemma get_progress_percentage_value:
  "get_progress_percentage e s m = Inr (progress_value e s m)"
  by (simp add: get_progress_percentage_def progress_value_def py_truediv_def bind_exn_def)

lemma get_actual_hours_value:
  "get_actual_hours e s m = rounded_hours e (module_sessions s m)"
  by (simp add: get_actual_hours_def py_sum_def rounded_hours_def Let_def)

lemma module_to_dict_value:
  "module_to_dict e s inc m = Inr
     \<lparr>md_id = m_id m, md_name = m_name m, md_target_hours = m_target_hours m,
      md_exam_date = m_exam_date m, md_created_at = m_created_at m,
      md_actual_hours = get_actual_hours e s m, md_progress_percentage = progress_value e s m,
      md_sessions = (if inc then Some (map (session_to_dict s) (module_sessions s m)) else None)\<rparr>"
  by (simp add: module_to_dict_def get_progress_percentage_value bind_exn_def)

text \<open>
  C3. For every module, serializing never raises; the serialized progress percentage is
  0 when the target equals 0, whatever the sessions are, and otherwise the actual hours
  divided by the target, times 100, rounded to one decimal; the serialized actual hours
  are the sum of the durations of the module's sessions rounded to two decimals (the
  int 0 when it has no session). Quotient, product, sum and rounding are Python's.
\<close>

theorem progress_percentage_serialized:
  "map_sum id md_progress_percentage (module_to_dict e s inc m) =
     Inr (if f_is_zero e (m_target_hours m) then PInt 0
          else PFloat (f_round e
                 (f_mul e (f_div e (as_float e (get_actual_hours e s m)) (m_target_hours m))
                    (f_lit e 100)) 1))
   \<and> map_sum id md_actual_hours (module_to_dict e s inc m) = Inr (get_actual_hours e s m)
   \<and> get_actual_hours e s m =
       (if filter (\<lambda>x. s_module_id x = m_id m) (sessions s) = [] then PInt 0
        else PFloat (f_round e
               (f_sum e (map s_duration (filter (\<lambda>x. s_module_id x = m_id m) (sessions s)))) 2))"
  by (simp add: module_to_dict_value progress_value_def get_actual_hours_value
      rounded_hours_def module_sessions_def)

theorem progress_percentage_serialized_witness:
  "map_sum id md_progress_percentage (module_to_dict demo_env demo_db False demo_algebra)
     = Inr (PInt 0)
   \<and> get_actual_hours demo_env demo_db demo_algebra = PFloat 3
   \<and> map_sum id md_progress_percentage (module_to_dict demo_env demo_db False demo_analysis)
       = Inr (PFloat (44 / 5))"
proof -
  have z: "f_is_zero demo_env (m_target_hours demo_algebra) = True" by code_simp
  have nz: "f_is_zero demo_env (m_target_hours demo_analysis) = False" by code_simp
  have v: "f_round demo_env
             (f_mul demo_env
                (f_div demo_env (as_float demo_env (get_actual_hours demo_env demo_db demo_analysis))
                   (m_target_hours demo_analysis))
                (f_lit demo_env 100)) 1 = 44 / 5"
    by code_simp
  have a: "(if filter (\<lambda>x. s_module_id x = m_id demo_algebra) (sessions demo_db) = [] then PInt 0
        else PFloat (f_round demo_env
               (f_sum demo_env (map s_duration
                  (filter (\<lambda>x. s_module_id x = m_id demo_algebra) (sessions demo_db)))) 2))
       = PFloat 3"
    by code_simp
  note t1 = progress_percentage_serialized [of demo_env demo_db False demo_algebra]
  note t2 = progress_percentage_serialized [of demo_env demo_db False demo_analysis]
  from t1 have "map_sum id md_progress_percentage (module_to_dict demo_env demo_db False demo_algebra)
     = Inr (PInt 0)" unfolding z by (simp only: if_True)
  moreover from t1 have "get_actual_hours demo_env demo_db demo_algebra = PFloat 3"
    unfolding a by blast
  moreover from t2 have "map_sum id md_progress_percentage
      (module_to_dict demo_env demo_db False demo_analysis) = Inr (PFloat (44 / 5))"
    unfolding nz v by (simp only: if_False)
  ultimately show ?thesis by blast
qed

section \<open>Listing sessions\<close>

lemma set_insort_desc: "set (insort_desc x ys) = insert x (set ys)"
  by (induction ys) auto

lemma mset_insort_desc: "mset (insort_desc x ys) = add_mset x (mset ys)"
  by (induction ys) auto

lemma mset_order_by_date_desc: "mset (order_by_date_desc xs) = mset xs"
  unfolding order_by_date_desc_def by (induction xs) (simp_all add: mset_insort_desc)

lemma date_le_total: "date_le a b \<or> date_le b a"
  unfolding date_le_def by auto

lemma date_le_trans: "date_le a b \<Longrightarrow> date_le b c \<Longrightarrow> date_le a c"
  unfolding date_le_def by auto

lemma sorted_insort_desc:
  "sorted_wrt later_first ys \<Longrightarrow> sorted_wrt later_first (insort_desc x ys)"
proof (induction ys)
  case Nil
  show ?case by simp
next
  case (Cons y ys)
  show ?case
  proof (cases "date_le (s_date y) (s_date x)")
    case True
    have "\<forall>z\<in>set ys. date_le (s_date z) (s_date x)"
      using Cons.prems True by (auto intro: date_le_trans)
    with True Cons.prems show ?thesis by simp
  next
    case False
    then have "date_le (s_date x) (s_date y)" using date_le_total by blast
    with False Cons show ?thesis by (auto simp: set_insort_desc)
  qed
qed

lemma sorted_order_by_date_desc: "sorted_wrt later_first (order_by_date_desc xs)"
  unfolding order_by_date_desc_def by (induction xs) (simp_all add: sorted_insort_desc)

lemma get_sessions_None:
  "get_sessions None s =
     (SessionList (map (session_to_dict s) (order_by_date_desc (sessions s))), 200)"
  by (simp add: get_sessions_def get_sessions_try_def bind_exn_def)

lemma sd_date_session_to_dict: "sd_date (session_to_dict s x) = s_date x"
  by (simp add: session_to_dict_def)

text \<open>
  C6 (amended). Without a limit the answer is 200 with every session, each once, later
  dates first. With a positive limit \<open>n\<close> below \<open>2 ^ 63\<close> the answer is 200 with the first
  \<open>n\<close> entries of that list, so at most \<open>n\<close> of them.
\<close>

theorem get_sessions_ordered_limited:
  "get_sessions None s =
     (SessionList (map (session_to_dict s) (order_by_date_desc (sessions s))), 200)
   \<and> mset (order_by_date_desc (sessions s)) = mset (sessions s)
   \<and> sorted_wrt (\<lambda>a b. date_le (sd_date b) (sd_date a))
         (map (session_to_dict s) (order_by_date_desc (sessions s)))
   \<and> (0 < n \<and> n < 9223372036854775808 \<longrightarrow>
        get_sessions (Some n) s =
          (SessionList (take (nat n) (map (session_to_dict s) (order_by_date_desc (sessions s)))),
           200)
        \<and> int (length (take (nat n) (map (session_to_dict s) (order_by_date_desc (sessions s)))))
            \<le> n)"
proof -
  have "sorted_wrt (\<lambda>a b. date_le (sd_date b) (sd_date a))
         (map (session_to_dict s) (order_by_date_desc (sessions s)))"
    using sorted_order_by_date_desc [of "sessions s"]
    by (simp add: sorted_wrt_map sd_date_session_to_dict)
  moreover have "0 < n \<and> n < 9223372036854775808 \<Longrightarrow> get_sessions (Some n) s =
          (SessionList (take (nat n) (map (session_to_dict s) (order_by_date_desc (sessions s)))),
           200)"
    by (simp add: get_sessions_def get_sessions_try_def sql_limit_def bind_int_def in_int64_def
        bind_exn_def take_map)
  moreover have "0 < n \<Longrightarrow>
      int (length (take (nat n) (map (session_to_dict s) (order_by_date_desc (sessions s))))) \<le> n"
    by (simp add: min_def) arith
  ultimately show ?thesis
    using get_sessions_None [of s] mset_order_by_date_desc [of "sessions s"] by blast
qed

text \<open>
  A limit of \<open>2 ^ 63\<close> is a positive integer, and the answer is 500: the claim C6 as
  stated fails.
\<close>

theorem get_sessions_limit_out_of_range:
  "get_sessions (Some 9223372036854775808) demo_db = (ErrorExn OverflowError, 500)"
  by code_simp

theorem get_sessions_ordered_limited_witness:
  "(0::int) < 2 \<and> (2::int) < 9223372036854775808
   \<and> get_sessions (Some 2) demo_db =
       (SessionList
          [\<lparr>sd_id = 2, sd_module_id = 2, sd_module_name = Some ''Algebra'', sd_duration = 3,
            sd_date = \<lparr>year = 2026, month = 11, day = 5\<rparr>, sd_notes = Some ''groups'',
            sd_created_at = 3\<rparr>,
           \<lparr>sd_id = 1, sd_module_id = 1, sd_module_name = Some ''Analysis'', sd_duration = 5 / 2,
            sd_date = \<lparr>year = 2026, month = 11, day = 2\<rparr>, sd_notes = None,
            sd_created_at = 2\<rparr>], 200)"
proof -
  have pos: "(0::int) < 2 \<and> (2::int) < 9223372036854775808" by simp
  have ev: "take (nat 2) (map (session_to_dict demo_db) (order_by_date_desc (sessions demo_db))) =
          [\<lparr>sd_id = 2, sd_module_id = 2, sd_module_name = Some ''Algebra'', sd_duration = 3,
            sd_date = \<lparr>year = 2026, month = 11, day = 5\<rparr>, sd_notes = Some ''groups'',
            sd_created_at = 3\<rparr>,
           \<lparr>sd_id = 1, sd_module_id = 1, sd_module_name = Some ''Analysis'', sd_duration = 5 / 2,
            sd_date = \<lparr>year = 2026, month = 11, day = 2\<rparr>, sd_notes = None,
            sd_created_at = 2\<rparr>]"
    by code_simp
  from get_sessions_ordered_limited [of demo_db 2] pos show ?thesis
    unfolding ev by blast
qed

text \<open>
  C9. A limit of 0 is answered like no limit: 200 with every session, later dates
  first.
\<close>

theorem get_sessions_zero_limit:
  "get_sessions (Some 0) s = get_sessions None s
   \<and> get_sessions (Some 0) s =
       (SessionList (map (session_to_dict s) (order_by_date_desc (sessions s))), 200)
   \<and> mset (order_by_date_desc (sessions s)) = mset (sessions s)"
  by (simp add: get_sessions_def get_sessions_try_def bind_exn_def mset_order_by_date_desc)

section \<open>A request without a body\<close>

text \<open>
  C10 (amended). When the body is the JSON text \<^verbatim>\<open>null\<close>, creating a session answers
  500 with the \<^verbatim>\<open>TypeError\<close> of the membership test and creating a module answers 400.
  When the request has no JSON body, \<^verbatim>\<open>get_json()\<close> raises inside the \<^verbatim>\<open>try\<close> and both
  handlers answer 500. The store is unchanged in every case.
\<close>

theorem create_null_body:
  "create_session e now (Json JNull) s = ((ErrorExn TypeError, 500), s)
   \<and> create_module e now (Json JNull) s =
       ((Error ''Name und target_hours sind erforderlich'', 400), s)
   \<and> create_session e now NoJson s = ((ErrorExn UnsupportedMediaType, 500), s)
   \<and> create_module e now NoJson s = ((ErrorExn UnsupportedMediaType, 500), s)
   \<and> create_session e now BadJson s = ((ErrorExn BadRequest, 500), s)
   \<and> create_module e now BadJson s = ((ErrorExn BadRequest, 500), s)"
  by (simp add: create_session_def create_session_try_def create_module_def
      create_module_try_def get_json_def bind_exn_def)

text \<open>
  Creating a module with a request that has no body is answered 500 and not 400: the
  claim C10 as stated fails.
\<close>

theorem create_module_absent_body:
  "create_module demo_env 9 NoJson demo_db = ((ErrorExn UnsupportedMediaType, 500), demo_db)"
  by (simp add: create_module_def create_module_try_def get_json_def bind_exn_def)

section \<open>Asking for a recommendation\<close>

text \<open>
  C7. With an empty credential or the placeholder, the answer is 503 with an error and
  a message, the store is unchanged and no request has been sent to the service.
\<close>

theorem recommend_unconfigured:
  "gemini_api_key cfg = [] \<or> gemini_api_key cfg = ''your-api-key-here'' \<Longrightarrow>
   create_recommendation e cfg now s =
     ((ErrorMessage ''Gemini API nicht konfiguriert''
         ''Bitte GEMINI_API_KEY Umgebungsvariable setzen'', 503), s, [])"
  unfolding create_recommendation_def by (simp only: if_True)

theorem recommend_unconfigured_witness:
  "create_recommendation demo_env (demo_cfg ''your-api-key-here'') 9 demo_db =
     ((ErrorMessage ''Gemini API nicht konfiguriert''
         ''Bitte GEMINI_API_KEY Umgebungsvariable setzen'', 503), demo_db, [])
   \<and> create_recommendation demo_env (demo_cfg []) 9 demo_db =
     ((ErrorMessage ''Gemini API nicht konfiguriert''
         ''Bitte GEMINI_API_KEY Umgebungsvariable setzen'', 503), demo_db, [])"
  using recommend_unconfigured [of "demo_cfg ''your-api-key-here''" demo_env 9 demo_db]
    recommend_unconfigured [of "demo_cfg []" demo_env 9 demo_db]
  by (simp add: demo_cfg_def)

section \<open>The prompt\<close>

lemma foldl_append_lines: "foldl (\<lambda>p m. p @ f m) a ms = a @ concat (map f ms)"
  by (induction ms arbitrary: a) simp_all

lemma is_prefix_append: "is_prefix xs (xs @ ys)"
  by (induction xs) simp_all

lemma is_substring_middle: "is_substring xs (as @ xs @ bs)"
proof (induction as)
  case Nil
  show ?case by (cases "xs @ bs") (use is_prefix_append [of xs bs] in auto)
next
  case (Cons a as)
  then show ?case by simp
qed

lemma concat_map_split:
  "m \<in> set ms \<Longrightarrow> \<exists>as bs. concat (map f ms) = as @ f m @ bs"
proof (induction ms)
  case Nil
  then show ?case by simp
next
  case (Cons x ms)
  show ?case
  proof (cases "m = x")
    case True
    have "concat (map f (x # ms)) = [] @ f m @ concat (map f ms)" using True by simp
    then show ?thesis by blast
  next
    case False
    with Cons obtain as bs where "concat (map f ms) = as @ f m @ bs" by auto
    then have "concat (map f (x # ms)) = (f x @ as) @ f m @ bs" by simp
    then show ?thesis by blast
  qed
qed

lemma build_prompt_lines:
  "build_prompt e s ms = prompt_header @ concat (map (module_line e s) ms) @ plan_instructions"
  by (simp add: build_prompt_def foldl_append_lines)

lemma module_line_in_prompt:
  assumes "m \<in> set ms"
  shows "is_substring (module_line e s m) (build_prompt e s ms)"
proof -
  from concat_map_split [OF assms, of "module_line e s"]
  obtain as bs where "concat (map (module_line e s) ms) = as @ module_line e s m @ bs" by blast
  then have "build_prompt e s ms =
      (prompt_header @ as) @ module_line e s m @ (bs @ plan_instructions)"
    by (simp add: build_prompt_lines)
  then show ?thesis by (simp only: is_substring_middle)
qed

lemma remaining_hours_value:
  "remaining_hours e s m =
     (if f_pos e (f_sub e (m_target_hours m) (as_float e (get_actual_hours e s m)))
      then PFloat (f_sub e (m_target_hours m) (as_float e (get_actual_hours e s m)))
      else PInt 0)"
  by (simp add: remaining_hours_def py_max0_def)

lemma module_line_text:
  "module_line e s m =
     ''- '' @ m_name m @ '': Ziel '' @ repr_float e (m_target_hours m)
     @ ''h, bereits gelernt '' @ fmt_num e (get_actual_hours e s m)
     @ ''h, noch '' @ fmt_num e (remaining_hours e s m) @ ''h offen''
     @ (case m_exam_date m of Some d \<Rightarrow> exam_prefix @ strftime_dmy e d @ '')'' | None \<Rightarrow> [])
     @ ''\<newline>''"
  by (simp add: module_line_def Let_def)

text \<open>
  C8. With a configured credential and no module, the answer is 400, the store is
  unchanged and nothing is sent to the service. With a module, the one request sent
  carries the prompt, which is the header, one line for every module in table order,
  and the instructions; the line of a module names it and gives its target hours, its
  actual hours and its remaining hours, which are \<^verbatim>\<open>max(0, target - actual)\<close>: the
  difference when it is greater than 0 and the int 0 otherwise. The difference and the
  comparison are Python's.
\<close>

theorem recommend_without_modules:
  "(gemini_api_key cfg \<noteq> [] \<and> gemini_api_key cfg \<noteq> ''your-api-key-here'' \<and> modules s = [] \<longrightarrow>
      create_recommendation e cfg now s =
        ((ErrorMessage ''Keine Module vorhanden''
            ''Bitte erstelle zuerst Module, bevor du eine Empfehlung anforderst'', 400), s, []))
   \<and> (gemini_api_key cfg \<noteq> [] \<and> gemini_api_key cfg \<noteq> ''your-api-key-here'' \<and> modules s \<noteq> [] \<longrightarrow>
      snd (snd (create_recommendation e cfg now s)) =
        [\<lparr>gr_model = gemini_model cfg, gr_prompt = build_prompt e s (modules s),
          gr_temperature = gemini_temperature cfg,
          gr_max_output_tokens = gemini_max_tokens cfg\<rparr>])
   \<and> build_prompt e s ms = prompt_header @ concat (map (module_line e s) ms) @ plan_instructions
   \<and> (m \<in> set ms \<longrightarrow> is_substring (module_line e s m) (build_prompt e s ms))
   \<and> module_line e s m =
       ''- '' @ m_name m @ '': Ziel '' @ repr_float e (m_target_hours m)
       @ ''h, bereits gelernt '' @ fmt_num e (get_actual_hours e s m)
       @ ''h, noch '' @ fmt_num e (remaining_hours e s m) @ ''h offen''
       @ (case m_exam_date m of Some d \<Rightarrow> exam_prefix @ strftime_dmy e d @ '')'' | None \<Rightarrow> [])
       @ ''\<newline>''
   \<and> remaining_hours e s m =
       (if f_pos e (f_sub e (m_target_hours m) (as_float e (get_actual_hours e s m)))
        then PFloat (f_sub e (m_target_hours m) (as_float e (get_actual_hours e s m)))
        else PInt 0)"
proof -
  have a: "gemini_api_key cfg \<noteq> [] \<and> gemini_api_key cfg \<noteq> ''your-api-key-here'' \<and> modules s = [] \<longrightarrow>
      create_recommendation e cfg now s =
        ((ErrorMessage ''Keine Module vorhanden''
            ''Bitte erstelle zuerst Module, bevor du eine Empfehlung anforderst'', 400), s, [])"
    by (simp add: create_recommendation_def)
  have b: "gemini_api_key cfg \<noteq> [] \<and> gemini_api_key cfg \<noteq> ''your-api-key-here'' \<and> modules s \<noteq> [] \<longrightarrow>
      snd (snd (create_recommendation e cfg now s)) =
        [\<lparr>gr_model = gemini_model cfg, gr_prompt = build_prompt e s (modules s),
          gr_temperature = gemini_temperature cfg,
          gr_max_output_tokens = gemini_max_tokens cfg\<rparr>]"
    by (simp add: create_recommendation_def Let_def split: sum.split)
  show ?thesis
    using a b build_prompt_lines [of e s ms] module_line_in_prompt [of m ms e s]
      module_line_text [of e s m] remaining_hours_value [of e s m]
    by blast
qed

theorem recommend_without_modules_witness:
  "create_recommendation demo_env (demo_cfg ''key-1'') 9 empty_db =
     ((ErrorMessage ''Keine Module vorhanden''
         ''Bitte erstelle zuerst Module, bevor du eine Empfehlung anforderst'', 400), empty_db, [])
   \<and> map gr_prompt (snd (snd (create_recommendation demo_env (demo_cfg ''key-1'') 9 demo_db))) =
       [build_prompt demo_env demo_db (modules demo_db)]
   \<and> is_substring ''- Analysis: Ziel 40.0h, bereits gelernt 3.5h, noch 36.5h offen''
       (build_prompt demo_env demo_db (modules demo_db))
   \<and> is_substring ''- Algebra: Ziel 0.0h, bereits gelernt 3.0h, noch 0h offen''
       (build_prompt demo_env demo_db (modules demo_db))"
proof -
  have key: "gemini_api_key (demo_cfg ''key-1'') \<noteq> []"
      "gemini_api_key (demo_cfg ''key-1'') \<noteq> ''your-api-key-here''"
    by (simp_all add: demo_cfg_def)
  have none: "modules (empty_db :: rat db) = []" by (simp add: empty_db_def)
  have some: "modules demo_db \<noteq> []" "demo_analysis \<in> set (modules demo_db)"
      "demo_algebra \<in> set (modules demo_db)"
    by (simp_all add: demo_db_def)
  have l1: "module_line demo_env demo_db demo_analysis =
      ''- Analysis: Ziel 40.0h, bereits gelernt 3.5h, noch 36.5h offen'' @ ''\<newline>''"
    by code_simp
  have l2: "module_line demo_env demo_db demo_algebra =
      ''- Algebra: Ziel 0.0h, bereits gelernt 3.0h, noch 0h offen'' @ ''\<newline>''"
    by code_simp
  have sub: "is_substring (a @ b) c \<Longrightarrow> is_substring a c" for a b c :: string
  proof (induction c)
    case Nil
    then show ?case by simp
  next
    case (Cons x c)
    have "is_prefix (a @ b) ys \<Longrightarrow> is_prefix a ys" for ys :: string
      by (induction a ys rule: is_prefix.induct) simp_all
    with Cons show ?case by auto
  qed
  note t1 = recommend_without_modules
    [where cfg = "demo_cfg ''key-1''" and s = "empty_db :: rat db" and e = demo_env and now = 9]
  note t2 = recommend_without_modules
    [where cfg = "demo_cfg ''key-1''" and s = demo_db and e = demo_env and now = 9
       and ms = "modules demo_db" and m = demo_analysis]
  note t3 = recommend_without_modules
    [where cfg = "demo_cfg ''key-1''" and s = demo_db and e = demo_env and now = 9
       and ms = "modules demo_db" and m = demo_algebra]
  have "create_recommendation demo_env (demo_cfg ''key-1'') 9 empty_db =
     ((ErrorMessage ''Keine Module vorhanden''
         ''Bitte erstelle zuerst Module, bevor du eine Empfehlung anforderst'', 400), empty_db, [])"
    using t1 key none by blast
  moreover have "map gr_prompt (snd (snd (create_recommendation demo_env (demo_cfg ''key-1'') 9 demo_db))) =
       [build_prompt demo_env demo_db (modules demo_db)]"
    using t2 key some(1) by simp
  moreover have "is_substring (module_line demo_env demo_db demo_analysis)
       (build_prompt demo_env demo_db (modules demo_db))"
    using t2 some(2) by blast
  moreover have "is_substring (module_line demo_env demo_db demo_algebra)
       (build_prompt demo_env demo_db (modules demo_db))"
    using t3 some(3) by blast
  ultimately show ?thesis
    unfolding l1 l2 using sub by blast
qed

section \<open>Creating modules and sessions\<close>

lemma strptime_ymd_error: "strptime_ymd e t = Inl ex \<Longrightarrow> ex = ValueError"
  by (auto simp: strptime_ymd_def split: list.splits prod.splits if_splits)

lemma validate_date_total: "\<exists>r. validate_date e v = Inr r"
proof (cases v)
  case (JStr t)
  then show ?thesis
    by (cases "strptime_ymd e t") (auto simp: validate_date_def dest: strptime_ymd_error)
qed (simp_all add: validate_date_def)

lemma add_module_status:
  "snd (fst (case add_module e now data t ex s of
               Inl err \<Rightarrow> ((ErrorExn err, 500), s) | Inr r \<Rightarrow> r)) \<noteq> 400"
  by (auto simp: add_module_def bind_exn_def Let_def module_to_dict_value
      split: sum.splits option.splits)

lemma add_module_value:
  assumes "map_of kvs ''name'' = Some nm" and "db_text e nm = Inr (Some n)"
    and "py_float e t = Inr x" and "bind_real e x = Inr y"
  shows "\<exists>d. module_to_dict e (s\<lparr>modules := modules s @ [new_module now n y ex s]\<rparr>) False
              (new_module now n y ex s) = Inr d
           \<and> add_module e now (JObj kvs) t ex s =
               Inr ((ModuleBody d, 201), s\<lparr>modules := modules s @ [new_module now n y ex s]\<rparr>)"
  using assms
  by (simp add: add_module_def bind_exn_def new_module_def Let_def module_to_dict_value)

lemma create_module_try_obj:
  "create_module_try e now (Json (JObj kvs)) s =
     (if map_of kvs ''name'' = None \<or> map_of kvs ''target_hours'' = None
      then Inr ((Error ''Name und target_hours sind erforderlich'', 400), s)
      else case py_number (the (map_of kvs ''target_hours'')) of
             None \<Rightarrow> Inl TypeError
           | Some t \<Rightarrow>
               if py_neg e t
               then Inr ((Error ''target_hours darf nicht negativ sein'', 400), s)
               else (case map_of kvs ''exam_date'' of
                       None \<Rightarrow> add_module e now (JObj kvs) t None s
                     | Some ex \<Rightarrow>
                         if py_truthy e ex
                         then (case validate_date e ex of
                                 Inl err \<Rightarrow> Inl err
                               | Inr None \<Rightarrow> Inr ((Error msg_invalid_date, 400), s)
                               | Inr (Some d) \<Rightarrow> add_module e now (JObj kvs) t (Some d) s)
                         else add_module e now (JObj kvs) t None s))"
proof (cases "kvs = []")
  case True
  then show ?thesis by (simp add: create_module_try_def get_json_def bind_exn_def)
next
  case False
  then show ?thesis
    by (auto simp: create_module_try_def get_json_def bind_exn_def Let_def
        split: option.splits sum.splits)
qed

lemma create_module_obj_400:
  assumes "\<forall>v. map_of kvs ''target_hours'' = Some v \<longrightarrow> py_number v \<noteq> None"
  shows "(snd (fst (create_module e now (Json (JObj kvs)) s)) = 400) =
     (map_of kvs ''name'' = None \<or> map_of kvs ''target_hours'' = None
      \<or> (\<exists>v n. map_of kvs ''target_hours'' = Some v \<and> py_number v = Some n \<and> py_neg e n)
      \<or> (\<exists>v. map_of kvs ''exam_date'' = Some v \<and> py_truthy e v \<and> validate_date e v = Inr None))"
proof (cases "map_of kvs ''name'' = None \<or> map_of kvs ''target_hours'' = None")
  case True
  then show ?thesis by (auto simp: create_module_def create_module_try_obj)
next
  case False
  then obtain nm th where nm: "map_of kvs ''name'' = Some nm"
    and th: "map_of kvs ''target_hours'' = Some th" by auto
  with assms obtain t where t: "py_number th = Some t" by auto
  note add = add_module_status [where e = e and now = now and data = "JObj kvs" and t = t and s = s]
  show ?thesis
  proof (cases "py_neg e t")
    case True
    then show ?thesis using nm th t by (simp add: create_module_def create_module_try_obj)
  next
    case pos: False
    show ?thesis
    proof (cases "map_of kvs ''exam_date''")
      case None
      then show ?thesis
        using nm th t pos add [where ex = None]
        by (simp add: create_module_def create_module_try_obj)
    next
      case (Some ex)
      obtain r where r: "validate_date e ex = Inr r" using validate_date_total by blast
      show ?thesis
      proof (cases "py_truthy e ex \<and> r = None")
        case True
        then show ?thesis
          using nm th t pos Some r by (simp add: create_module_def create_module_try_obj)
      next
        case False
        then show ?thesis
          using nm th t pos Some r add [where ex = None] add [where ex = r]
          by (cases r) (auto simp: create_module_def create_module_try_obj)
      qed
    qed
  qed
qed

lemma create_module_obj_201:
  assumes "map_of kvs ''name'' = Some nm" and "db_text e nm = Inr (Some n)"
    and "map_of kvs ''target_hours'' = Some v" and "py_number v = Some t" and "\<not> py_neg e t"
    and "py_float e t = Inr x" and "bind_real e x = Inr y"
    and "\<not> (\<exists>z. map_of kvs ''exam_date'' = Some z \<and> py_truthy e z \<and> validate_date e z = Inr None)"
  shows "\<exists>d. module_to_dict e
               (s\<lparr>modules := modules s @ [new_module now n y (requested_exam_date e kvs) s]\<rparr>)
               False (new_module now n y (requested_exam_date e kvs) s) = Inr d
           \<and> create_module e now (Json (JObj kvs)) s =
               ((ModuleBody d, 201),
                s\<lparr>modules := modules s @ [new_module now n y (requested_exam_date e kvs) s]\<rparr>)"
proof -
  note add = add_module_value [OF assms(1,2,6,7), of s now]
  show ?thesis
  proof (cases "map_of kvs ''exam_date''")
    case None
    then show ?thesis
      using assms add [of None]
      by (auto simp: create_module_def create_module_try_obj requested_exam_date_def)
  next
    case (Some z)
    obtain r where r: "validate_date e z = Inr r" using validate_date_total by blast
    show ?thesis
    proof (cases "py_truthy e z")
      case True
      with assms(8) Some r obtain d where d: "r = Some d" by (cases r) auto
      then show ?thesis
        using assms Some r True add [of "Some d"]
        by (auto simp: create_module_def create_module_try_obj requested_exam_date_def)
    next
      case False
      then show ?thesis
        using assms Some add [of None]
        by (auto simp: create_module_def create_module_try_obj requested_exam_date_def)
    qed
  qed
qed

text \<open>
  C5 (amended). For a body that is a JSON object whose target, if present, is a number:
  the answer is 400 exactly when the name or the target is missing, or the target is
  negative, or the exam date is present, not empty and does not parse as a date. When
  none of these holds, the target converts to a float and the store keeps that float
  and the name, the module is added to the store, with a new id, and returned
  serialized with its derived fields and status 201.
\<close>

theorem create_module_outcomes:
  assumes "target_is_number kvs"
  shows "(snd (fst (create_module e now (Json (JObj kvs)) s)) = 400) = module_request_rejected e kvs
    \<and> (\<not> module_request_rejected e kvs
        \<and> map_of kvs ''name'' = Some nm \<and> db_text e nm = Inr (Some n)
        \<and> map_of kvs ''target_hours'' = Some v \<and> py_number v = Some t
        \<and> py_float e t = Inr x \<and> bind_real e x = Inr y \<longrightarrow>
        (\<exists>m d.
           m = new_module now n y (requested_exam_date e kvs) s
           \<and> module_to_dict e (s\<lparr>modules := modules s @ [m]\<rparr>) False m = Inr d
           \<and> create_module e now (Json (JObj kvs)) s =
               ((ModuleBody d, 201), s\<lparr>modules := modules s @ [m]\<rparr>)))"
proof -
  have typed: "\<forall>v. map_of kvs ''target_hours'' = Some v \<longrightarrow> py_number v \<noteq> None"
    using assms by (auto simp: target_is_number_def)
  have rej: "module_request_rejected e kvs =
     (map_of kvs ''name'' = None \<or> map_of kvs ''target_hours'' = None
      \<or> (\<exists>v n. map_of kvs ''target_hours'' = Some v \<and> py_number v = Some n \<and> py_neg e n)
      \<or> (\<exists>v. map_of kvs ''exam_date'' = Some v \<and> py_truthy e v \<and> validate_date e v = Inr None))"
    using typed by (auto simp: module_request_rejected_def split: option.splits)
  have first: "(snd (fst (create_module e now (Json (JObj kvs)) s)) = 400)
      = module_request_rejected e kvs"
    unfolding rej by (rule create_module_obj_400 [OF typed])
  have second: "\<exists>m d.
           m = new_module now n y (requested_exam_date e kvs) s
           \<and> module_to_dict e (s\<lparr>modules := modules s @ [m]\<rparr>) False m = Inr d
           \<and> create_module e now (Json (JObj kvs)) s =
               ((ModuleBody d, 201), s\<lparr>modules := modules s @ [m]\<rparr>)"
    if ok: "\<not> module_request_rejected e kvs" and nm: "map_of kvs ''name'' = Some nm"
      and n: "db_text e nm = Inr (Some n)" and v: "map_of kvs ''target_hours'' = Some v"
      and t: "py_number v = Some t" and x: "py_float e t = Inr x" and y: "bind_real e x = Inr y"
  proof -
    from ok rej v t have pos: "\<not> py_neg e t" by blast
    from ok rej have ex: "\<not> (\<exists>z. map_of kvs ''exam_date'' = Some z \<and> py_truthy e z
        \<and> validate_date e z = Inr None)" by blast
    from create_module_obj_201 [OF nm n v t pos x y ex, of s now] show ?thesis by blast
  qed
  show ?thesis using first second by blast
qed

text \<open>
  An exam date that is present as the empty string does not parse, and the module is
  created all the same: the claim C5 as stated fails.
\<close>

theorem create_module_empty_exam_date:
  "map_of [(''name'', JStr ''Logic''), (''target_hours'', JInt 30),
           (''exam_date'', JStr [] :: rat json)]
     ''exam_date'' = Some (JStr [])
   \<and> validate_date demo_env (JStr []) = Inr None
   \<and> snd (fst (create_module demo_env 9
         (Json (JObj [(''name'', JStr ''Logic''), (''target_hours'', JInt 30),
                      (''exam_date'', JStr [])]))
         demo_db)) = 201"
  by code_simp


theorem create_module_outcomes_witness:
  "target_is_number [(''name'', JStr ''Logic''), (''target_hours'', JInt 30),
                     (''exam_date'', JStr ''15.02.2027'' :: rat json)]
   \<and> snd (fst (create_module demo_env 9 (demo_module_request ''15.02.2027'') demo_db)) = 400
   \<and> snd (fst (create_module demo_env 9 (demo_module_request ''2027-02-15'') demo_db)) = 201
   \<and> modules (snd (create_module demo_env 9 (demo_module_request ''2027-02-15'') demo_db)) =
       modules demo_db @
       [\<lparr>m_id = 3, m_name = ''Logic'', m_target_hours = 30,
         m_exam_date = Some \<lparr>year = 2027, month = 2, day = 15\<rparr>, m_created_at = 9\<rparr>]"
proof -
  let ?bad = "[(''name'', JStr ''Logic''), (''target_hours'', JInt 30),
               (''exam_date'', JStr ''15.02.2027'' :: rat json)]"
  let ?good = "[(''name'', JStr ''Logic''), (''target_hours'', JInt 30),
                (''exam_date'', JStr ''2027-02-15'' :: rat json)]"
  have b1: "target_is_number ?bad" by code_simp
  have b2: "module_request_rejected demo_env ?bad" by code_simp
  have g1: "target_is_number ?good" by code_simp
  have g2: "\<not> module_request_rejected demo_env ?good" by code_simp
  have g3: "map_of ?good ''name'' = Some (JStr ''Logic'')"
      "db_text demo_env (JStr ''Logic'') = Inr (Some ''Logic'')"
      "map_of ?good ''target_hours'' = Some (JInt 30)" "py_number (JInt 30 :: rat json) = Some (PInt 30)"
    by simp_all
  have g4: "py_float demo_env (PInt 30) = Inr 30" "bind_real demo_env (30 :: rat) = Inr 30"
    by code_simp+
  have g5: "new_module 9 ''Logic'' 30 (requested_exam_date demo_env ?good) demo_db =
        \<lparr>m_id = 3, m_name = ''Logic'', m_target_hours = 30,
         m_exam_date = Some \<lparr>year = 2027, month = 2, day = 15\<rparr>, m_created_at = 9\<rparr>"
    by code_simp
  have "snd (fst (create_module demo_env 9 (Json (JObj ?bad)) demo_db)) = 400"
    using create_module_outcomes [OF b1, of demo_env 9 demo_db] b2 by blast
  moreover have "snd (fst (create_module demo_env 9 (Json (JObj ?good)) demo_db)) = 201
     \<and> modules (snd (create_module demo_env 9 (Json (JObj ?good)) demo_db)) =
       modules demo_db @
       [\<lparr>m_id = 3, m_name = ''Logic'', m_target_hours = 30,
         m_exam_date = Some \<lparr>year = 2027, month = 2, day = 15\<rparr>, m_created_at = 9\<rparr>]"
  proof -
    from create_module_outcomes [OF g1, where e = demo_env and now = 9 and s = demo_db
        and nm = "JStr ''Logic''" and n = "''Logic''" and v = "JInt 30" and t = "PInt 30"
        and x = 30 and y = 30] g2 g3 g4
    obtain m d where m: "m = new_module 9 ''Logic'' 30 (requested_exam_date demo_env ?good) demo_db"
      and r: "create_module demo_env 9 (Json (JObj ?good)) demo_db =
                ((ModuleBody d, 201), demo_db\<lparr>modules := modules demo_db @ [m]\<rparr>)"
      by blast
    from m g5 have "m = \<lparr>m_id = 3, m_name = ''Logic'', m_target_hours = 30,
         m_exam_date = Some \<lparr>year = 2027, month = 2, day = 15\<rparr>, m_created_at = 9\<rparr>"
      by (simp only:)
    then show ?thesis by (simp only: r fst_conv snd_conv) simp
  qed
  ultimately show ?thesis using b1 by (simp add: demo_module_request_def)
qed

lemma first_missing_obj:
  "first_missing fs (JObj kvs) = Inr (find (\<lambda>f. map_of kvs f = None) fs)"
  by (induction fs) (simp_all add: bind_exn_def)

lemma create_session_missing:
  assumes "map_of kvs ''module_id'' = None \<or> map_of kvs ''duration'' = None
      \<or> map_of kvs ''date'' = None"
  shows "snd (fst (create_session e now (Json (JObj kvs)) s)) = 400
      \<and> snd (create_session e now (Json (JObj kvs)) s) = s"
proof -
  from assms have "\<exists>f. find (\<lambda>f. map_of kvs f = None) [''module_id'', ''duration'', ''date'']
      = Some f" by auto
  then obtain f where "find (\<lambda>f. map_of kvs f = None) [''module_id'', ''duration'', ''date'']
      = Some f" by blast
  then have fm: "first_missing [''module_id'', ''duration'', ''date''] (JObj kvs) = Inr (Some f)"
    by (simp only: first_missing_obj)
  show ?thesis
    by (simp add: create_session_def create_session_try_def get_json_def bind_exn_def fm
        del: first_missing.simps)
qed

lemma create_session_present:
  assumes "map_of kvs ''module_id'' = Some mid" and "map_of kvs ''duration'' = Some dur"
    and "map_of kvs ''date'' = Some dt" and "py_number dur = Some n"
  shows "create_session_try e now (Json (JObj kvs)) s =
     (if py_nonpos e n then Inr ((Error msg_duration, 400), s)
      else case db_ident e mid of
             Inl err \<Rightarrow> Inl err
           | Inr ident \<Rightarrow>
               (case (case ident of None \<Rightarrow> None
                      | Some i \<Rightarrow> map_option (\<lambda>m. (i, m)) (query_get_module s i)) of
                  None \<Rightarrow> Inr ((Error ''Modul nicht gefunden'', 404), s)
                | Some (i, m) \<Rightarrow>
                    (case validate_date e dt of
                       Inl err \<Rightarrow> Inl err
                     | Inr None \<Rightarrow> Inr ((Error msg_invalid_date, 400), s)
                     | Inr (Some d) \<Rightarrow> add_session e now (JObj kvs) i n d s)))"
  using assms
  by (auto simp: create_session_try_def get_json_def first_missing_obj bind_exn_def Let_def
      split: option.splits sum.splits)

text \<open>
  C4 (amended). For a body that is a JSON object, the checks are made in this order and
  the first that fails decides the answer: a missing module id, duration or date gives
  400; a duration (a number) that is not positive gives 400; a module id for which the
  store's lookup finds no module gives 404; a date that does not parse gives 400. In
  each case the store is unchanged.
\<close>

theorem create_session_rejections:
  "(map_of kvs ''module_id'' = None \<or> map_of kvs ''duration'' = None \<or> map_of kvs ''date'' = None
      \<longrightarrow> snd (fst (create_session e now (Json (JObj kvs)) s)) = 400
          \<and> snd (create_session e now (Json (JObj kvs)) s) = s)
   \<and> (map_of kvs ''module_id'' = Some mid \<and> map_of kvs ''duration'' = Some dur
       \<and> map_of kvs ''date'' = Some dt \<and> py_number dur = Some n \<longrightarrow>
        (py_nonpos e n \<longrightarrow>
          create_session e now (Json (JObj kvs)) s = ((Error msg_duration, 400), s))
      \<and> (\<not> py_nonpos e n
           \<and> (db_ident e mid = Inr None
               \<or> (\<exists>i. db_ident e mid = Inr (Some i) \<and> query_get_module s i = None)) \<longrightarrow>
          create_session e now (Json (JObj kvs)) s = ((Error ''Modul nicht gefunden'', 404), s))
      \<and> (\<not> py_nonpos e n \<and> db_ident e mid = Inr (Some i) \<and> query_get_module s i \<noteq> None
           \<and> validate_date e dt = Inr None \<longrightarrow>
          create_session e now (Json (JObj kvs)) s = ((Error msg_invalid_date, 400), s)))"
proof -
  have present: "create_session e now (Json (JObj kvs)) s = ((Error msg_duration, 400), s)"
    if "map_of kvs ''module_id'' = Some mid" "map_of kvs ''duration'' = Some dur"
       "map_of kvs ''date'' = Some dt" "py_number dur = Some n" "py_nonpos e n"
    using that by (simp add: create_session_def create_session_present)
  have absent: "create_session e now (Json (JObj kvs)) s = ((Error ''Modul nicht gefunden'', 404), s)"
    if "map_of kvs ''module_id'' = Some mid" "map_of kvs ''duration'' = Some dur"
       "map_of kvs ''date'' = Some dt" "py_number dur = Some n" "\<not> py_nonpos e n"
       "db_ident e mid = Inr None \<or> (\<exists>i. db_ident e mid = Inr (Some i) \<and> query_get_module s i = None)"
    using that by (auto simp: create_session_def create_session_present)
  have baddate: "create_session e now (Json (JObj kvs)) s = ((Error msg_invalid_date, 400), s)"
    if "map_of kvs ''module_id'' = Some mid" "map_of kvs ''duration'' = Some dur"
       "map_of kvs ''date'' = Some dt" "py_number dur = Some n" "\<not> py_nonpos e n"
       "db_ident e mid = Inr (Some i)" "query_get_module s i \<noteq> None" "validate_date e dt = Inr None"
    using that by (auto simp: create_session_def create_session_present)
  show ?thesis
    using create_session_missing [of kvs e now s] present absent baddate by blast
qed

text \<open>
  The module id \<open>2 ^ 63\<close> references no module, and the answer is 500 and not 404: the
  claim C4 as stated fails.
\<close>

theorem create_session_module_id_out_of_range:
  "query_get_module demo_db 9223372036854775808 = None
   \<and> create_session demo_env 9
       (Json (JObj [(''module_id'', JInt 9223372036854775808), (''duration'', JFloat (3 / 2)),
                    (''date'', JStr ''2026-11-05'')]))
       demo_db = ((ErrorExn OverflowError, 500), demo_db)"
  by code_simp

theorem create_session_rejections_witness:
  "snd (fst (create_session demo_env 9 (Json (JObj [(''duration'', JInt 1)])) demo_db)) = 400
   \<and> snd (create_session demo_env 9 (Json (JObj [(''duration'', JInt 1)])) demo_db) = demo_db
   \<and> create_session demo_env 9 (demo_session_request 1 0 ''2026-11-05'') demo_db =
       ((Error msg_duration, 400), demo_db)
   \<and> create_session demo_env 9 (demo_session_request 99 (3 / 2) ''2026-11-05'') demo_db =
       ((Error ''Modul nicht gefunden'', 404), demo_db)
   \<and> create_session demo_env 9 (demo_session_request 1 (3 / 2) ''tomorrow'') demo_db =
       ((Error msg_invalid_date, 400), demo_db)"
proof -
  have q1: "query_get_module demo_db 99 = None" by code_simp
  have q2: "query_get_module demo_db 1 \<noteq> None" by code_simp
  have v: "validate_date demo_env (JStr ''tomorrow'') = Inr None" by code_simp
  have i1: "db_ident demo_env (JInt 1) = Inr (Some 1)" "db_ident demo_env (JInt 99) = Inr (Some 99)"
    by code_simp+
  have n0: "py_nonpos demo_env (PFloat 0)" "\<not> py_nonpos demo_env (PFloat (3 / 2))"
    by code_simp+
  have "snd (fst (create_session demo_env 9 (Json (JObj [(''duration'', JInt 1)])) demo_db)) = 400
      \<and> snd (create_session demo_env 9 (Json (JObj [(''duration'', JInt 1)])) demo_db) = demo_db"
    using create_session_rejections [where kvs = "[(''duration'', JInt 1)]" and now = 9
        and s = demo_db and e = demo_env]
    by simp
  moreover have "create_session demo_env 9 (demo_session_request 1 0 ''2026-11-05'') demo_db =
       ((Error msg_duration, 400), demo_db)"
    using create_session_rejections [where now = 9 and s = demo_db and e = demo_env
        and kvs = "[(''module_id'', JInt 1), (''duration'', JFloat 0), (''date'', JStr ''2026-11-05'')]"
        and mid = "JInt 1" and dur = "JFloat 0" and dt = "JStr ''2026-11-05''" and n = "PFloat 0"]
      n0(1)
    by (simp add: demo_session_request_def)
  moreover have "create_session demo_env 9 (demo_session_request 99 (3 / 2) ''2026-11-05'') demo_db =
       ((Error ''Modul nicht gefunden'', 404), demo_db)"
    using create_session_rejections [where now = 9 and s = demo_db and e = demo_env
        and kvs = "[(''module_id'', JInt 99), (''duration'', JFloat (3 / 2)),
                    (''date'', JStr ''2026-11-05'')]"
        and mid = "JInt 99" and dur = "JFloat (3 / 2)" and dt = "JStr ''2026-11-05''"
        and n = "PFloat (3 / 2)"] q1 i1(2) n0(2)
    by (simp add: demo_session_request_def)
  moreover have "create_session demo_env 9 (demo_session_request 1 (3 / 2) ''tomorrow'') demo_db =
       ((Error msg_invalid_date, 400), demo_db)"
    using create_session_rejections [where now = 9 and s = demo_db and e = demo_env
        and kvs = "[(''module_id'', JInt 1), (''duration'', JFloat (3 / 2)),
                    (''date'', JStr ''tomorrow'')]"
        and mid = "JInt 1" and dur = "JFloat (3 / 2)" and dt = "JStr ''tomorrow''"
        and n = "PFloat (3 / 2)" and i = 1] q2 v i1(1) n0(2)
    by (simp add: demo_session_request_def)
  ultimately show ?thesis by blast
qed

section \<open>The calendar\<close>

lemma days_before_month_numeral:
  "days_before_month y (numeral k) =
     (if pred_numeral k = 0 then 0
      else days_before_month y (pred_numeral k) + days_in_month y (pred_numeral k))"
  by (simp add: numeral_eq_Suc)

lemma days_before_month_1: "days_before_month y 1 = 0"
  unfolding One_nat_def by simp

lemma days_before_month_12: "days_before_month y 12 = 334 + (if is_leap y then 1 else 0)"
  by (simp add: days_before_month_numeral days_in_month_def)


lemma div_step:
  "0 < k \<Longrightarrow> 0 < z \<Longrightarrow> z div k = (z - 1) div k + (if z mod k = 0 then 1 else 0)"
  for k z :: nat
proof -
  assume k: "0 < k" and z: "0 < z"
  then obtain y where y: "z = Suc y" by (cases z) auto
  show ?thesis
    using k unfolding y by (simp add: div_Suc mod_Suc)
qed

lemma days_before_year_Suc:
  assumes "0 < z"
  shows "days_before_year (Suc z) = days_before_year z + 365 + (if is_leap z then 1 else 0)"
proof -
  define a b c where "a = (z - 1) div 4" and "b = (z - 1) div 100" and "c = (z - 1) div 400"
  have d4: "z div 4 = a + (if z mod 4 = 0 then 1 else 0)"
    unfolding a_def using div_step [of 4 z] assms by simp
  have d100: "z div 100 = b + (if z mod 100 = 0 then 1 else 0)"
    unfolding b_def using div_step [of 100 z] assms by simp
  have d400: "z div 400 = c + (if z mod 400 = 0 then 1 else 0)"
    unfolding c_def using div_step [of 400 z] assms by simp
  have le: "b \<le> a" unfolding a_def b_def by (rule div_le_mono2) simp_all
  have m1: "z mod 4 = 0" if "z mod 100 = 0"
  proof -
    have "z mod 100 mod 4 = z mod 4" by (rule mod_mod_cancel) simp
    with that show ?thesis by simp
  qed
  have m2: "z mod 100 = 0" if "z mod 400 = 0"
  proof -
    have "z mod 400 mod 100 = z mod 100" by (rule mod_mod_cancel) simp
    with that show ?thesis by simp
  qed
  have mul: "z * 365 = (z - 1) * 365 + 365" using assms by (cases z) simp_all
  have e1: "days_before_year (Suc z) = z * 365 + z div 4 + z div 400 - z div 100"
    by (simp add: days_before_year_def)
  have e2: "days_before_year z = (z - 1) * 365 + a + c - b"
    by (simp add: days_before_year_def a_def b_def c_def Let_def)
  show ?thesis
  proof (cases "z mod 4 = 0")
    case False
    with m1 have n100: "z mod 100 \<noteq> 0" by blast
    with m2 have "z mod 400 \<noteq> 0" by blast
    with n100 have "z mod 100 \<noteq> 0" "z mod 400 \<noteq> 0" by simp_all
    with False show ?thesis
      unfolding e1 e2 d4 d100 d400 mul is_leap_def using le by simp
  next
    case m4: True
    show ?thesis
    proof (cases "z mod 100 = 0")
      case False
      with m2 have "z mod 400 \<noteq> 0" by blast
      with False m4 show ?thesis
        unfolding e1 e2 d4 d100 d400 mul is_leap_def using le by simp
    next
      case m100: True
      show ?thesis
      proof (cases "z mod 400 = 0")
        case True
        with m4 m100 show ?thesis
          unfolding e1 e2 d4 d100 d400 mul is_leap_def using le by simp
      next
        case False
        with m4 m100 show ?thesis
          unfolding e1 e2 d4 d100 d400 mul is_leap_def using le by simp
      qed
    qed
  qed
qed

lemma days_before_month_step:
  "1 < m \<Longrightarrow> days_before_month y (m - 1) + days_in_month y (m - 1) = days_before_month y m"
  by (cases m) auto

lemma toordinal_pos: "valid_date d \<Longrightarrow> 0 < toordinal d"
  by (simp add: valid_date_def toordinal_def)

lemma days_in_month_pos: "0 < days_in_month y m"
  by (simp add: days_in_month_def)

lemma prev_day_valid:
  assumes "valid_date d" and "1 < toordinal d"
  shows "valid_date (prev_day d) \<and> toordinal (prev_day d) = toordinal d - 1"
proof (cases "1 < day d")
  case True
  with assms show ?thesis
    by (auto simp: prev_day_def valid_date_def toordinal_def)
next
  case d1: False
  with assms have day1: "day d = 1" by (simp add: valid_date_def)
  show ?thesis
  proof (cases "1 < month d")
    case True
    with assms day1 d1 show ?thesis
      using days_before_month_step [of "month d" "year d"] days_in_month_pos [of "year d" "month d - 1"]
      by (auto simp: prev_day_def valid_date_def toordinal_def)
  next
    case False
    with assms have m1: "month d = 1" by (simp add: valid_date_def)
    from assms day1 m1 have y: "1 < year d"
      by (cases "year d = 1") (auto simp: toordinal_def days_before_year_def valid_date_def)
    then obtain z where z: "year d = Suc z" "0 < z" by (cases "year d") auto
    from assms z have zle: "z \<le> 9999" by (simp add: valid_date_def)
    show ?thesis
      using day1 m1 z zle d1 False days_before_year_Suc [of z] days_before_month_12 [of z]
      by (simp add: prev_day_def valid_date_def toordinal_def days_in_month_def)
  qed
qed

lemma back_days_valid:
  "valid_date d \<Longrightarrow> n < toordinal d \<Longrightarrow>
   valid_date (back_days d n) \<and> toordinal (back_days d n) = toordinal d - n"
proof (induction n arbitrary: d)
  case 0
  then show ?case by simp
next
  case (Suc n)
  from Suc.prems have "1 < toordinal d" by simp
  with Suc.prems prev_day_valid [of d]
  have p: "valid_date (prev_day d)" "toordinal (prev_day d) = toordinal d - 1" by auto
  with Suc.prems have "n < toordinal (prev_day d)" by simp
  from Suc.IH [OF p(1) this] p(2) show ?case by simp
qed

lemma date_le_refl: "date_le a a"
  by (simp add: date_le_def)

lemma date_le_prev_day: "valid_date d \<Longrightarrow> date_le (prev_day d) d"
  by (auto simp: prev_day_def date_le_def valid_date_def)

lemma date_le_back_days:
  "valid_date d \<Longrightarrow> n < toordinal d \<Longrightarrow> date_le (back_days d n) d"
proof (induction n arbitrary: d)
  case 0
  then show ?case by (simp add: date_le_refl)
next
  case (Suc n)
  from Suc.prems have "1 < toordinal d" by simp
  with Suc.prems prev_day_valid [of d]
  have p: "valid_date (prev_day d)" "toordinal (prev_day d) = toordinal d - 1" by auto
  with Suc.prems have "n < toordinal (prev_day d)" by simp
  from Suc.IH [OF p(1) this] date_le_prev_day [OF Suc.prems(1)]
  show ?case by (auto intro: date_le_trans)
qed

lemma weekday_less_ordinal: "valid_date d \<Longrightarrow> weekday d < toordinal d"
  using toordinal_pos [of d] unfolding weekday_def by presburger

lemma week_start_monday:
  assumes "valid_date today"
  shows "date_sub_days today (weekday today) = Inr (back_days today (weekday today))"
    and "valid_date (back_days today (weekday today))"
    and "weekday (back_days today (weekday today)) = 0"
    and "toordinal (back_days today (weekday today)) + weekday today = toordinal today"
    and "date_le (back_days today (weekday today)) today"
proof -
  note lt = weekday_less_ordinal [OF assms]
  note bd = back_days_valid [OF assms lt]
  show "date_sub_days today (weekday today) = Inr (back_days today (weekday today))"
    using lt by (simp add: date_sub_days_def)
  show "valid_date (back_days today (weekday today))" using bd by simp
  show ord: "toordinal (back_days today (weekday today)) + weekday today = toordinal today"
    using bd lt by simp
  show "weekday (back_days today (weekday today)) = 0"
    using ord unfolding weekday_def by presburger
  show "date_le (back_days today (weekday today)) today"
    by (rule date_le_back_days [OF assms lt])
qed


section \<open>The dashboard\<close>

lemma map_exn_module_to_dict:
  "\<exists>ds. map_exn (module_to_dict e s inc) ms = Inr ds"
  by (induction ms) (auto simp: bind_exn_def module_to_dict_value)

lemma latest_recommendation_None: "(latest_recommendation rs = None) = (rs = [])"
  by (induction rs) (auto split: option.splits)

lemma latest_recommendation_Some:
  "latest_recommendation rs = Some r \<Longrightarrow>
   r \<in> set rs \<and> (\<forall>r'\<in>set rs. r_created_at r' \<le> r_created_at r)"
proof (induction rs arbitrary: r)
  case Nil
  then show ?case by simp
next
  case (Cons a rs)
  show ?case
  proof (cases "latest_recommendation rs")
    case None
    with Cons.prems show ?thesis by (simp add: latest_recommendation_None)
  next
    case (Some b)
    from Cons.IH [OF Some] have b: "b \<in> set rs" "\<forall>r'\<in>set rs. r_created_at r' \<le> r_created_at b"
      by auto
    show ?thesis
    proof (cases "r_created_at a < r_created_at b")
      case True
      with Cons.prems Some have "r = b" by simp
      with b True show ?thesis by auto
    next
      case False
      with Cons.prems Some have "r = a" by simp
      with b False show ?thesis by fastforce
    qed
  qed
qed

lemma calculate_total_hours_value: "calculate_total_hours e xs = rounded_hours e xs"
  by (simp add: calculate_total_hours_def py_sum_def rounded_hours_def)

text \<open>
  C2. On a day \<open>today\<close>, the week's start that the handler computes is the Monday of
  the week of \<open>today\<close>: a Monday, not after \<open>today\<close> and less than seven days before
  it. The answer is 200 with a dashboard in which the hours of today, of the week and of
  the month are the sums of the durations of the sessions dated from \<open>today\<close>, from that
  Monday and from the first of the month to \<open>today\<close>, both ends included, rounded to two
  decimals (the int 0 when the range has no session), with Python's sum and rounding; the
  two session counts count the sessions of the first two ranges; the module count is the
  number of modules; and the last recommendation is absent when there is no
  recommendation and otherwise carries the id, text and creation time of one whose
  creation time no other exceeds.
\<close>

theorem dashboard_statistics_correct:
  assumes "valid_date today"
  shows "\<exists>week_start d.
      date_sub_days today (weekday today) = Inr week_start
    \<and> weekday week_start = 0 \<and> date_le week_start today
    \<and> toordinal today < toordinal week_start + 7
    \<and> dashboard_of (get_dashboard e today s) = Some d
    \<and> hours_today (statistics d) = hours_between e s today today
    \<and> hours_week (statistics d) = hours_between e s week_start today
    \<and> hours_month (statistics d) = hours_between e s (today\<lparr>day := 1\<rparr>) today
    \<and> sessions_today (statistics d) = count_between s today today
    \<and> sessions_week (statistics d) = count_between s week_start today
    \<and> total_modules (statistics d) = length (modules s)
    \<and> (case last_recommendation d of
          None \<Rightarrow> recommendations s = []
        | Some rd \<Rightarrow> \<exists>r\<in>set (recommendations s).
            rd_id rd = r_id r \<and> rd_recommendation_text rd = r_recommendation_text r
            \<and> rd_created_at rd = r_created_at r
            \<and> (\<forall>r'\<in>set (recommendations s). r_created_at r' \<le> r_created_at r))"
proof -
  define ws where "ws = back_days today (weekday today)"
  note wk = week_start_monday [OF assms, folded ws_def]
  obtain ds where ds: "map_exn (module_to_dict e s False) (modules s) = Inr ds"
    using map_exn_module_to_dict by blast
  have wd: "weekday today < 7" unfolding weekday_def by simp
  have ord: "toordinal today < toordinal ws + 7" using wk(4) wd by simp
  define d where "d =
     \<lparr>statistics =
        \<lparr>hours_today = calculate_total_hours e (get_sessions_by_date_range s today today),
         hours_week = calculate_total_hours e (get_sessions_by_date_range s ws today),
         hours_month = calculate_total_hours e (get_sessions_by_date_range s (replace_day1 today) today),
         sessions_today = length (get_sessions_by_date_range s today today),
         sessions_week = length (get_sessions_by_date_range s ws today),
         total_modules = length (modules s)\<rparr>,
      dd_modules = ds,
      last_recommendation =
        map_option recommendation_to_dict (latest_recommendation (recommendations s))\<rparr>"
  have dash: "get_dashboard e today s = (DashboardBody d, 200)"
    by (simp add: get_dashboard_def get_dashboard_try_def bind_exn_def wk(1) ds d_def Let_def)
  have rng: "get_sessions_by_date_range s a b = in_range_sessions s a b" for a b
    by (simp add: get_sessions_by_date_range_def in_range_sessions_def)
  have last: "(case last_recommendation d of
          None \<Rightarrow> recommendations s = []
        | Some rd \<Rightarrow> \<exists>r\<in>set (recommendations s).
            rd_id rd = r_id r \<and> rd_recommendation_text rd = r_recommendation_text r
            \<and> rd_created_at rd = r_created_at r
            \<and> (\<forall>r'\<in>set (recommendations s). r_created_at r' \<le> r_created_at r))"
  proof (cases "latest_recommendation (recommendations s)")
    case None
    then show ?thesis by (simp add: d_def latest_recommendation_None)
  next
    case (Some r)
    from latest_recommendation_Some [OF Some] Some show ?thesis
      by (auto simp: d_def recommendation_to_dict_def)
  qed
  have "date_sub_days today (weekday today) = Inr ws
    \<and> weekday ws = 0 \<and> date_le ws today
    \<and> toordinal today < toordinal ws + 7
    \<and> dashboard_of (get_dashboard e today s) = Some d
    \<and> hours_today (statistics d) = hours_between e s today today
    \<and> hours_week (statistics d) = hours_between e s ws today
    \<and> hours_month (statistics d) = hours_between e s (today\<lparr>day := 1\<rparr>) today
    \<and> sessions_today (statistics d) = count_between s today today
    \<and> sessions_week (statistics d) = count_between s ws today
    \<and> total_modules (statistics d) = length (modules s)"
    using wk(1,3,5) ord
    by (simp add: dash d_def calculate_total_hours_value rng hours_between_def
        count_between_def replace_day1_def)
  with last show ?thesis by blast
qed

lemma back_days_numeral: "back_days d (numeral k) = back_days (prev_day d) (pred_numeral k)"
  by (simp add: numeral_eq_Suc)

theorem dashboard_statistics_correct_witness:
  "valid_date demo_today
   \<and> date_sub_days demo_today (weekday demo_today) = Inr demo_monday
   \<and> map_option (\<lambda>d. hours_today (statistics d))
        (dashboard_of (get_dashboard demo_env demo_today demo_db)) = Some (PFloat 3)
   \<and> map_option (\<lambda>d. hours_week (statistics d))
        (dashboard_of (get_dashboard demo_env demo_today demo_db)) = Some (PFloat (11 / 2))
   \<and> map_option (\<lambda>d. hours_month (statistics d))
        (dashboard_of (get_dashboard demo_env demo_today demo_db)) = Some (PFloat (13 / 2))
   \<and> map_option (\<lambda>d. (sessions_today (statistics d), sessions_week (statistics d),
                        total_modules (statistics d), last_recommendation d))
        (dashboard_of (get_dashboard demo_env demo_today demo_db)) = Some (1, 2, 2, None)"
proof -
  have v: "valid_date demo_today" by code_simp
  have wd: "weekday demo_today = 3"
    by (simp add: weekday_def toordinal_def days_before_year_def days_before_month_numeral
        days_in_month_def is_leap_def demo_today_def)
  have w: "date_sub_days demo_today (weekday demo_today) = Inr demo_monday"
    unfolding wd
    by (simp add: date_sub_days_def toordinal_def days_before_year_def days_before_month_numeral
        days_in_month_def is_leap_def demo_today_def demo_monday_def back_days_numeral
        prev_day_def)
  have h1: "hours_between demo_env demo_db demo_today demo_today = PFloat 3" by code_simp
  have h2: "hours_between demo_env demo_db demo_monday demo_today = PFloat (11 / 2)" by code_simp
  have h3: "hours_between demo_env demo_db (demo_today\<lparr>day := 1\<rparr>) demo_today = PFloat (13 / 2)"
    by code_simp
  have c1: "count_between demo_db demo_today demo_today = 1" by code_simp
  have c2: "count_between demo_db demo_monday demo_today = 2" by code_simp
  have c3: "length (modules demo_db) = 2" by code_simp
  have c4: "recommendations demo_db = []" by code_simp
  from dashboard_statistics_correct [OF v, of demo_env demo_db] obtain week_start d
    where ws: "date_sub_days demo_today (weekday demo_today) = Inr week_start"
      and d: "dashboard_of (get_dashboard demo_env demo_today demo_db) = Some d"
      and st: "hours_today (statistics d) = hours_between demo_env demo_db demo_today demo_today"
        "hours_week (statistics d) = hours_between demo_env demo_db week_start demo_today"
        "hours_month (statistics d) = hours_between demo_env demo_db (demo_today\<lparr>day := 1\<rparr>) demo_today"
        "sessions_today (statistics d) = count_between demo_db demo_today demo_today"
        "sessions_week (statistics d) = count_between demo_db week_start demo_today"
        "total_modules (statistics d) = length (modules demo_db)"
      and lr: "(case last_recommendation d of
          None \<Rightarrow> recommendations demo_db = []
        | Some rd \<Rightarrow> \<exists>r\<in>set (recommendations demo_db).
            rd_id rd = r_id r \<and> rd_recommendation_text rd = r_recommendation_text r
            \<and> rd_created_at rd = r_created_at r
            \<and> (\<forall>r'\<in>set (recommendations demo_db). r_created_at r' \<le> r_created_at r))"
    by blast
  from ws w have eq: "week_start = demo_monday" by simp
  from lr c4 have "last_recommendation d = None" by (cases "last_recommendation d") auto
  with v w d st h1 h2 h3 c1 c2 c3 eq show ?thesis by simp
qed

section \<open>Deleting a module\<close>

lemma query_get_module_None: "(query_get_module s i = None) = (i \<notin> m_id ` set (modules s))"
  by (auto simp: query_get_module_def find_None_iff)

lemma query_get_module_Some: "query_get_module s i = Some m \<Longrightarrow> m_id m = i \<and> m \<in> set (modules s)"
  by (auto simp: query_get_module_def find_Some_iff)

lemma delete_module_out_of_range:
  "\<not> in_int64 i \<Longrightarrow> delete_module i s = ((ErrorExn OverflowError, 500), s)"
  by (simp add: delete_module_def delete_module_try_def bind_int_def bind_exn_def)

lemma delete_module_missing:
  "in_int64 i \<Longrightarrow> query_get_module s i = None \<Longrightarrow>
   delete_module i s = ((ErrorExn NotFound, 500), s)"
  by (simp add: delete_module_def delete_module_try_def get_or_404_def bind_int_def bind_exn_def)

lemma delete_module_existing:
  assumes "in_int64 i" and "query_get_module s i = Some m"
  shows "delete_module i s =
     ((Message (''Modul '' @ [CHR 0x22] @ m_name m @ msg_deleted_suffix), 200),
      s\<lparr>modules := filter (\<lambda>x. m_id x \<noteq> i) (modules s),
        sessions := filter (\<lambda>x. s_module_id x \<noteq> i) (sessions s)\<rparr>)"
  using assms query_get_module_Some [OF assms(2)]
  by (simp add: delete_module_def delete_module_try_def get_or_404_def bind_int_def bind_exn_def)

lemma delete_module_cascade:
  assumes "in_int64 i" and "query_get_module s i = Some m"
  shows "query_get_module (snd (delete_module i s)) i = None"
    and "\<forall>x\<in>set (sessions (snd (delete_module i s))). s_module_id x \<noteq> i"
    and "sessions (snd (delete_module i s)) = filter (\<lambda>x. s_module_id x \<noteq> i) (sessions s)"
  by (auto simp: delete_module_existing [OF assms] query_get_module_None)

lemma delete_session_missing:
  "in_int64 i \<Longrightarrow> query_get_session s i = None \<Longrightarrow>
   delete_session i s = ((ErrorExn NotFound, 500), s)"
  by (simp add: delete_session_def delete_session_try_def get_or_404_def bind_int_def bind_exn_def)

lemma invariant_iff:
  "sessions_reference_modules s =
     (\<forall>x\<in>set (sessions s). s_module_id x \<in> m_id ` set (modules s))"
  by (simp add: sessions_reference_modules_def list_all_iff query_get_module_None)

lemma add_module_store:
  "add_module e now data t ex s = Inr (r, s') \<Longrightarrow> \<exists>m. s' = s\<lparr>modules := modules s @ [m]\<rparr>"
  by (auto simp: add_module_def bind_exn_def Let_def module_to_dict_value
      split: sum.splits option.splits)

lemma create_module_try_store:
  "create_module_try e now body s = Inr (r, s') \<Longrightarrow>
   s' = s \<or> (\<exists>m. s' = s\<lparr>modules := modules s @ [m]\<rparr>)"
  by (auto simp: create_module_try_def bind_exn_def Let_def
      split: sum.splits option.splits if_splits dest: add_module_store)

lemma create_module_store:
  "snd (create_module e now body s) = s
   \<or> (\<exists>m. snd (create_module e now body s) = s\<lparr>modules := modules s @ [m]\<rparr>)"
  using create_module_try_store [of e now body s]
  by (cases "create_module_try e now body s") (auto simp: create_module_def)

lemma add_session_store:
  "add_session e now data i n d s = Inr (r, s') \<Longrightarrow>
   \<exists>x. s' = s\<lparr>sessions := sessions s @ [x]\<rparr> \<and> s_module_id x = i"
  by (auto simp: add_session_def bind_exn_def Let_def split: sum.splits)

lemma create_session_try_store:
  "create_session_try e now body s = Inr (r, s') \<Longrightarrow>
   s' = s \<or> (\<exists>x. s' = s\<lparr>sessions := sessions s @ [x]\<rparr>
               \<and> query_get_module s (s_module_id x) \<noteq> None)"
  by (auto simp: create_session_try_def bind_exn_def Let_def
      split: sum.splits option.splits if_splits prod.splits dest!: add_session_store)

lemma create_session_store:
  "snd (create_session e now body s) = s
   \<or> (\<exists>x. snd (create_session e now body s) = s\<lparr>sessions := sessions s @ [x]\<rparr>
          \<and> query_get_module s (s_module_id x) \<noteq> None)"
  using create_session_try_store [of e now body s]
  by (cases "create_session_try e now body s") (auto simp: create_session_def)

lemma delete_session_store:
  "\<exists>P. snd (delete_session i s) = s\<lparr>sessions := filter P (sessions s)\<rparr>"
proof (cases "delete_session_try i s")
  case (Inl ex)
  have "s = s\<lparr>sessions := filter (\<lambda>x. True) (sessions s)\<rparr>" by simp
  with Inl show ?thesis by (metis delete_session_def old.sum.simps(5) snd_conv)
next
  case (Inr r)
  then show ?thesis
    by (auto simp: delete_session_def delete_session_try_def bind_exn_def
        split: sum.splits)
qed

lemma create_recommendation_store:
  "modules (fst (snd (create_recommendation e cfg now s))) = modules s
   \<and> sessions (fst (snd (create_recommendation e cfg now s))) = sessions s"
  by (auto simp: create_recommendation_def Let_def split: sum.splits)

lemma reachable_sessions_reference_modules:
  "reachable s \<Longrightarrow> sessions_reference_modules s"
proof (induction rule: reachable.induct)
  case start
  show ?case by (simp add: invariant_iff empty_db_def)
next
  case (module_created s e now body)
  with create_module_store [of e now body s] show ?case
    by (auto simp: invariant_iff)
next
  case (module_deleted s i)
  show ?case
  proof (cases "in_int64 i")
    case False
    with module_deleted show ?thesis by (simp add: delete_module_out_of_range)
  next
    case True
    show ?thesis
    proof (cases "query_get_module s i")
      case None
      with True module_deleted show ?thesis by (simp add: delete_module_missing)
    next
      case (Some m)
      with True module_deleted show ?thesis
        by (auto simp: delete_module_existing invariant_iff)
    qed
  qed
next
  case (session_created s e now body)
  with create_session_store [of e now body s] show ?case
    by (auto simp: invariant_iff query_get_module_None)
next
  case (session_deleted s i)
  with delete_session_store [of i s] show ?case
    by (auto simp: invariant_iff)
next
  case (recommended s e cfg now)
  with create_recommendation_store [of e cfg now s] show ?case
    by (simp add: invariant_iff)
qed

text \<open>
  C1. The handlers at the inputs where the claim fails: deleting a module that does not
  exist is answered 500, carrying the \<open>NotFound\<close> exception that the generic
  \<^verbatim>\<open>except\<close> clause has caught, and not 404; and once module 1 is deleted with its
  sessions, deleting its session 1 is answered 500 in the same way. The lemmas above show
  the rest of the claim: an existing module is deleted with status 200 together with
  exactly the sessions that reference it, and in every reachable store each session
  references a module of the store.
\<close>

theorem delete_missing_module_answers_500:
  "query_get_module demo_db 7 = None
   \<and> delete_module 7 demo_db = ((ErrorExn NotFound, 500), demo_db)
   \<and> query_get_session (snd (delete_module 1 demo_db)) 1 = None
   \<and> delete_session 1 (snd (delete_module 1 demo_db)) =
       ((ErrorExn NotFound, 500), snd (delete_module 1 demo_db))"
  by code_simp

end
